theory Spec2Isabelle
  imports Main "HOL-Library.Word" "HOL-Library.Sublist"
begin

section \<open>JavaScript values\<close>

text \<open>
  The password manager is a JavaScript class \<open>Keychain\<close>, kept in three drafts in one
  file.  The first draft (lines 16-142) and the third draft (lines 312-499) are embedded
  here; their operations carry the suffixes \<open>_v1\<close> and \<open>_v3\<close>.  The second draft
  (lines 164-293) has the same \<open>init\<close>, \<open>get\<close>, \<open>set\<close> and \<open>remove\<close> as the first.

  Strings are \<open>string\<close>: sequences of code units below 256.  A number is an integer
  (\<open>JNum\<close>); non-integral numbers are outside the model.  An array carries its elements
  (a hole is \<open>JUndefined\<close>) and, separately, its other own properties; a plain object
  carries its own properties in the order JavaScript enumerates them.  \<open>JNative\<close> names
  a built-in function or prototype object, reached through the prototype chain.
\<close>

datatype jsval =
    JUndefined
  | JNull
  | JBool bool
  | JNum int
  | JStr string
  | JArr "jsval list" "(string \<times> jsval) list"
  | JObj "(string \<times> jsval) list"
  | JNative string

text \<open>
  What an operation throws.  \<open>Error\<close> and \<open>TypeError\<close> with the source's own messages
  are the source's \<open>throw\<close> statements; the other \<open>TypeError\<close>, \<open>SyntaxError\<close> and
  \<open>RangeError\<close> values are raised by the language or by Node, and their strings name the
  cause (they are not Node's message texts).  \<open>CipherError\<close> is an error reported by a
  cryptographic primitive.  \<open>NotModelled\<close> marks an input on which this embedding does
  not say what the program does.
\<close>

datatype error =
    Error string
  | TypeError string
  | SyntaxError string
  | RangeError string
  | CipherError string
  | NotModelled string

type_synonym bytes = "8 word list"

fun truthy :: "jsval \<Rightarrow> bool" where
  "truthy JUndefined = False"
| "truthy JNull = False"
| "truthy (JBool b) = b"
| "truthy (JNum n) = (n \<noteq> 0)"
| "truthy (JStr s) = (s \<noteq> [])"
| "truthy (JArr es ps) = True"
| "truthy (JObj ps) = True"
| "truthy (JNative f) = True"

subsection \<open>Property keys\<close>

definition is_digit :: "char \<Rightarrow> bool" where
  "is_digit c = (48 \<le> (of_char c :: nat) \<and> (of_char c :: nat) \<le> 57)"

definition digits_value :: "string \<Rightarrow> nat" where
  "digits_value s = foldl (\<lambda>n c. 10 * n + ((of_char c :: nat) - 48)) 0 s"

text \<open>An array index is a canonical decimal numeral below \<open>2^32 - 1\<close>.\<close>

definition array_index :: "string \<Rightarrow> nat option" where
  "array_index s =
     (if s \<noteq> [] \<and> list_all is_digit s \<and> (s = ''0'' \<or> hd s \<noteq> CHR ''0'')
         \<and> digits_value s < 2 ^ 32 - 1
      then Some (digits_value s) else None)"

fun alist_replace :: "string \<Rightarrow> jsval \<Rightarrow> (string \<times> jsval) list \<Rightarrow> (string \<times> jsval) list" where
  "alist_replace k v [] = []"
| "alist_replace k v ((k', v') # ps) =
     (if k' = k then (k, v) # ps else (k', v') # alist_replace k v ps)"

fun obj_insert_index :: "nat \<Rightarrow> string \<Rightarrow> jsval \<Rightarrow> (string \<times> jsval) list \<Rightarrow> (string \<times> jsval) list" where
  "obj_insert_index i k v [] = [(k, v)]"
| "obj_insert_index i k v ((k', v') # ps) =
     (case array_index k' of
        Some j \<Rightarrow> if j < i then (k', v') # obj_insert_index i k v ps else (k, v) # (k', v') # ps
      | None \<Rightarrow> (k, v) # (k', v') # ps)"

text \<open>
  Defining an own property: an existing key keeps its place; a new index key goes among
  the index keys, in ascending order; any other new key goes last.
\<close>

definition obj_put :: "(string \<times> jsval) list \<Rightarrow> string \<Rightarrow> jsval \<Rightarrow> (string \<times> jsval) list" where
  "obj_put ps k v =
     (if map_of ps k \<noteq> None then alist_replace k v ps
      else case array_index k of
             Some i \<Rightarrow> obj_insert_index i k v ps
           | None \<Rightarrow> ps @ [(k, v)])"

definition obj_delete :: "(string \<times> jsval) list \<Rightarrow> string \<Rightarrow> (string \<times> jsval) list" where
  "obj_delete ps k = filter (\<lambda>p. fst p \<noteq> k) ps"

subsection \<open>The prototype chain\<close>

text \<open>The string-keyed properties of the built-in prototypes (ECMAScript 2023).\<close>

definition Object_prototype_names :: "string list" where
  "Object_prototype_names =
     [''constructor'', ''__defineGetter__'', ''__defineSetter__'', ''hasOwnProperty'',
      ''__lookupGetter__'', ''__lookupSetter__'', ''isPrototypeOf'',
      ''propertyIsEnumerable'', ''toString'', ''valueOf'', ''toLocaleString'']"

definition Array_prototype_names :: "string list" where
  "Array_prototype_names =
     [''constructor'', ''at'', ''concat'', ''copyWithin'', ''fill'', ''find'', ''findIndex'',
      ''findLast'', ''findLastIndex'', ''lastIndexOf'', ''pop'', ''push'', ''reverse'',
      ''shift'', ''unshift'', ''slice'', ''sort'', ''splice'', ''includes'', ''indexOf'',
      ''join'', ''keys'', ''entries'', ''values'', ''forEach'', ''filter'', ''flat'',
      ''flatMap'', ''map'', ''every'', ''some'', ''reduce'', ''reduceRight'',
      ''toLocaleString'', ''toString'', ''toReversed'', ''toSorted'', ''toSpliced'', ''with'']"

definition String_prototype_names :: "string list" where
  "String_prototype_names =
     [''constructor'', ''anchor'', ''at'', ''big'', ''blink'', ''bold'', ''charAt'',
      ''charCodeAt'', ''codePointAt'', ''concat'', ''endsWith'', ''fontcolor'', ''fontsize'',
      ''fixed'', ''includes'', ''indexOf'', ''isWellFormed'', ''italics'', ''lastIndexOf'',
      ''link'', ''localeCompare'', ''match'', ''matchAll'', ''normalize'', ''padEnd'',
      ''padStart'', ''repeat'', ''replace'', ''replaceAll'', ''search'', ''slice'', ''small'',
      ''split'', ''strike'', ''sub'', ''substr'', ''substring'', ''sup'', ''startsWith'',
      ''toString'', ''toWellFormed'', ''trim'', ''trimStart'', ''trimLeft'', ''trimEnd'',
      ''trimRight'', ''toLocaleLowerCase'', ''toLocaleUpperCase'', ''toLowerCase'',
      ''toUpperCase'', ''valueOf'']"

definition Number_prototype_names :: "string list" where
  "Number_prototype_names =
     [''constructor'', ''toExponential'', ''toFixed'', ''toPrecision'', ''toString'',
      ''valueOf'', ''toLocaleString'']"

definition Boolean_prototype_names :: "string list" where
  "Boolean_prototype_names = [''constructor'', ''toString'', ''valueOf'']"

text \<open>
  \<open>inherited kind names name\<close>: what reading \<open>name\<close> gives on an object whose prototype is
  \<open>kind.prototype\<close> (with the string-keyed properties \<open>names\<close>, and \<open>Object.prototype\<close>
  behind it) when the object has no own property \<open>name\<close>.
\<close>

definition inherited :: "string \<Rightarrow> string list \<Rightarrow> string \<Rightarrow> jsval" where
  "inherited kind names name =
     (if name = ''__proto__'' then JNative (kind @ ''.prototype'')
      else if name = ''constructor'' then JNative kind
      else if name \<in> set names then JNative (kind @ ''.prototype.'' @ name)
      else if name \<in> set Object_prototype_names then JNative (''Object.prototype.'' @ name)
      else JUndefined)"

subsection \<open>Reading, writing and deleting a property\<close>

text \<open>\<open>js_get v name\<close> is the expression \<open>v[name]\<close>.\<close>

fun js_get :: "jsval \<Rightarrow> string \<Rightarrow> error + jsval" where
  "js_get JUndefined name = Inl (TypeError ''cannot read properties of undefined'')"
| "js_get JNull name = Inl (TypeError ''cannot read properties of null'')"
| "js_get (JObj ps) name =
     Inr (case map_of ps name of
            Some v \<Rightarrow> v
          | None \<Rightarrow> inherited ''Object'' Object_prototype_names name)"
| "js_get (JArr es ps) name =
     Inr (case array_index name of
            Some i \<Rightarrow> if i < length es then es ! i else JUndefined
          | None \<Rightarrow>
              if name = ''length'' then JNum (int (length es))
              else (case map_of ps name of
                      Some v \<Rightarrow> v
                    | None \<Rightarrow> inherited ''Array'' Array_prototype_names name))"
| "js_get (JStr s) name =
     Inr (case array_index name of
            Some i \<Rightarrow> if i < length s then JStr [s ! i] else JUndefined
          | None \<Rightarrow>
              if name = ''length'' then JNum (int (length s))
              else inherited ''String'' String_prototype_names name)"
| "js_get (JNum n) name = Inr (inherited ''Number'' Number_prototype_names name)"
| "js_get (JBool b) name = Inr (inherited ''Boolean'' Boolean_prototype_names name)"
| "js_get (JNative f) name = Inl (NotModelled ''property of a built-in object'')"

definition is_space :: "char \<Rightarrow> bool" where
  "is_space c = ((of_char c :: nat) \<in> {9, 10, 11, 12, 13, 32, 160})"

definition trim :: "string \<Rightarrow> string" where
  "trim s = rev (dropWhile is_space (rev (dropWhile is_space s)))"

text \<open>
  Assigning the string \<open>s\<close> to the \<open>length\<close> of an array: the string is converted to a
  number, which must be an integer below \<open>2^32\<close>.  Decimal numerals are converted here;
  a string that cannot start a numeric literal is not a number; the other numeric
  notations are outside the model.
\<close>

definition to_array_length :: "string \<Rightarrow> error + nat" where
  "to_array_length s =
     (let t = trim s in
      if list_all is_digit t then
        (if digits_value t < 2 ^ 32 then Inr (digits_value t)
         else Inl (RangeError ''Invalid array length''))
      else if is_digit (hd t) \<or> hd t \<in> set ''+-.I'' then Inl (NotModelled ''numeric string'')
      else Inl (RangeError ''Invalid array length''))"

text \<open>
  \<open>js_put v name s\<close> is the strict-mode assignment \<open>v[name] = s\<close> of a string; it returns
  the object after the assignment.  \<open>__proto__\<close> is an accessor of \<open>Object.prototype\<close>
  whose setter ignores a string.
\<close>

fun js_put :: "jsval \<Rightarrow> string \<Rightarrow> string \<Rightarrow> error + jsval" where
  "js_put JUndefined name s = Inl (TypeError ''cannot set properties of undefined'')"
| "js_put JNull name s = Inl (TypeError ''cannot set properties of null'')"
| "js_put (JObj ps) name s =
     Inr (if name = ''__proto__'' \<and> map_of ps name = None then JObj ps
          else JObj (obj_put ps name (JStr s)))"
| "js_put (JArr es ps) name s =
     (case array_index name of
        Some i \<Rightarrow>
          Inr (if i < length es then JArr (es[i := JStr s]) ps
               else JArr (es @ replicate (i - length es) JUndefined @ [JStr s]) ps)
      | None \<Rightarrow>
          if name = ''length'' then
            (case to_array_length s of
               Inl e \<Rightarrow> Inl e
             | Inr n \<Rightarrow>
                 Inr (if n \<le> length es then JArr (take n es) ps
                      else JArr (es @ replicate (n - length es) JUndefined) ps))
          else if name = ''__proto__'' \<and> map_of ps name = None then Inr (JArr es ps)
          else Inr (JArr es (obj_put ps name (JStr s))))"
| "js_put (JStr t) name s =
     (if name = ''__proto__'' then Inr (JStr t)
      else Inl (TypeError ''cannot create property on a string''))"
| "js_put (JNum n) name s =
     (if name = ''__proto__'' then Inr (JNum n)
      else Inl (TypeError ''cannot create property on a number''))"
| "js_put (JBool b) name s =
     (if name = ''__proto__'' then Inr (JBool b)
      else Inl (TypeError ''cannot create property on a boolean''))"
| "js_put (JNative f) name s = Inl (NotModelled ''property of a built-in object'')"

text \<open>\<open>js_delete v name\<close> is the strict-mode statement \<open>delete v[name]\<close>.\<close>

fun js_delete :: "jsval \<Rightarrow> string \<Rightarrow> error + jsval" where
  "js_delete JUndefined name = Inl (TypeError ''cannot convert undefined to object'')"
| "js_delete JNull name = Inl (TypeError ''cannot convert null to object'')"
| "js_delete (JObj ps) name = Inr (JObj (obj_delete ps name))"
| "js_delete (JArr es ps) name =
     (case array_index name of
        Some i \<Rightarrow> Inr (if i < length es then JArr (es[i := JUndefined]) ps else JArr es ps)
      | None \<Rightarrow>
          if name = ''length'' then Inl (TypeError ''cannot delete property length'')
          else Inr (JArr es (obj_delete ps name)))"
| "js_delete (JStr t) name =
     (case array_index name of
        Some i \<Rightarrow>
          if i < length t then Inl (TypeError ''cannot delete property of a string'')
          else Inr (JStr t)
      | None \<Rightarrow>
          if name = ''length'' then Inl (TypeError ''cannot delete property length'')
          else Inr (JStr t))"
| "js_delete (JNum n) name = Inr (JNum n)"
| "js_delete (JBool b) name = Inr (JBool b)"
| "js_delete (JNative f) name = Inl (NotModelled ''property of a built-in object'')"

section \<open>Encodings\<close>

definition hex_digits :: string where
  "hex_digits = ''0123456789abcdef''"

definition hex_encode :: "bytes \<Rightarrow> string" where
  "hex_encode bs = concat (map (\<lambda>b. [hex_digits ! (unat b div 16), hex_digits ! (unat b mod 16)]) bs)"

definition hex_value :: "char \<Rightarrow> nat option" where
  "hex_value c =
     (let n = (of_char c :: nat) in
      if 48 \<le> n \<and> n \<le> 57 then Some (n - 48)
      else if 97 \<le> n \<and> n \<le> 102 then Some (n - 87)
      else if 65 \<le> n \<and> n \<le> 70 then Some (n - 55)
      else None)"

fun hex_decode :: "string \<Rightarrow> bytes" where
  "hex_decode (a # b # r) =
     (case (hex_value a, hex_value b) of
        (Some x, Some y) \<Rightarrow> of_nat (16 * x + y) # hex_decode r
      | _ \<Rightarrow> [])"
| "hex_decode r = []"

definition base64_digits :: string where
  "base64_digits = ''ABCDEFGHIJKLMNOPQRSTUVWXYZabcdefghijklmnopqrstuvwxyz0123456789+/''"

fun base64_encode :: "bytes \<Rightarrow> string" where
  "base64_encode [] = []"
| "base64_encode [a] =
     [base64_digits ! (unat a div 4), base64_digits ! (unat a mod 4 * 16), CHR ''='', CHR ''='']"
| "base64_encode [a, b] =
     [base64_digits ! (unat a div 4), base64_digits ! (unat a mod 4 * 16 + unat b div 16),
      base64_digits ! (unat b mod 16 * 4), CHR ''='']"
| "base64_encode (a # b # c # r) =
     [base64_digits ! (unat a div 4), base64_digits ! (unat a mod 4 * 16 + unat b div 16),
      base64_digits ! (unat b mod 16 * 4 + unat c div 64), base64_digits ! (unat c mod 64)]
     @ base64_encode r"

definition base64_value :: "char \<Rightarrow> nat option" where
  "base64_value c =
     (let n = (of_char c :: nat) in
      if 65 \<le> n \<and> n \<le> 90 then Some (n - 65)
      else if 97 \<le> n \<and> n \<le> 122 then Some (n - 71)
      else if 48 \<le> n \<and> n \<le> 57 then Some (n + 4)
      else if n = 43 \<or> n = 45 then Some 62
      else if n = 47 \<or> n = 95 then Some 63
      else None)"

fun base64_groups :: "nat list \<Rightarrow> bytes" where
  "base64_groups (a # b # c # d # r) =
     [of_nat (a * 4 + b div 16), of_nat (b mod 16 * 16 + c div 4), of_nat (c mod 4 * 64 + d)]
     @ base64_groups r"
| "base64_groups [a, b, c] = [of_nat (a * 4 + b div 16), of_nat (b mod 16 * 16 + c div 4)]"
| "base64_groups [a, b] = [of_nat (a * 4 + b div 16)]"
| "base64_groups r = []"

definition base64_decode :: "string \<Rightarrow> bytes" where
  "base64_decode s =
     base64_groups (List.map_filter base64_value (takeWhile (\<lambda>c. c \<noteq> CHR ''='') s))"

definition utf8 :: "string \<Rightarrow> bytes" where
  "utf8 s =
     concat (map (\<lambda>c. let n = (of_char c :: nat) in
                        if n < 128 then [of_nat n]
                        else [of_nat (192 + n div 64), of_nat (128 + n mod 64)]) s)"

definition word_bytes :: "256 word \<Rightarrow> bytes" where
  "word_bytes w = map (\<lambda>i. ucast (drop_bit (8 * (31 - i)) w)) [0 ..< 32]"

section \<open>JSON\<close>

subsection \<open>JSON.stringify\<close>

definition dquote :: char where
  "dquote = CHR 0x22"

definition backslash :: char where
  "backslash = CHR 0x5C"

fun show_nat :: "nat \<Rightarrow> string" where
  "show_nat n =
     (if n < 10 then [''0123456789'' ! n]
      else show_nat (n div 10) @ [''0123456789'' ! (n mod 10)])"

definition show_int :: "int \<Rightarrow> string" where
  "show_int i = (if i < 0 then CHR ''-'' # show_nat (nat (- i)) else show_nat (nat i))"

text \<open>
  The escapes of \<open>QuoteJSONString\<close>: the quote, the backslash, the five short escapes and
  \<open>\u00XX\<close> for the other control characters.
\<close>

definition json_escape :: "char \<Rightarrow> string" where
  "json_escape c =
     (let n = (of_char c :: nat) in
      if c = dquote then [backslash, dquote]
      else if c = backslash then [backslash, backslash]
      else if n = 8 then [backslash, CHR ''b'']
      else if n = 9 then [backslash, CHR ''t'']
      else if n = 10 then [backslash, CHR ''n'']
      else if n = 12 then [backslash, CHR ''f'']
      else if n = 13 then [backslash, CHR ''r'']
      else if n < 32 then
        [backslash, CHR ''u'', CHR ''0'', CHR ''0'', hex_digits ! (n div 16), hex_digits ! (n mod 16)]
      else [c])"

definition json_quote :: "string \<Rightarrow> string" where
  "json_quote s = dquote # concat (map json_escape s) @ [dquote]"

fun join_comma :: "string list \<Rightarrow> string" where
  "join_comma [] = []"
| "join_comma [x] = x"
| "join_comma (x # y # r) = x @ CHR '','' # join_comma (y # r)"

text \<open>
  \<open>stringify v\<close> is \<open>JSON.stringify(v)\<close>; \<open>None\<close> is \<open>undefined\<close>.  An array gives its
  elements only (\<open>null\<close> for an element without a JSON text); an object leaves out the
  members without a JSON text.
\<close>

fun stringify :: "jsval \<Rightarrow> string option"
  and stringify_elements :: "jsval list \<Rightarrow> string list"
  and stringify_members :: "(string \<times> jsval) list \<Rightarrow> string list" where
  "stringify JUndefined = None"
| "stringify JNull = Some ''null''"
| "stringify (JBool b) = Some (if b then ''true'' else ''false'')"
| "stringify (JNum n) = Some (show_int n)"
| "stringify (JStr s) = Some (json_quote s)"
| "stringify (JArr es ps) = Some (CHR ''['' # join_comma (stringify_elements es) @ '']'')"
| "stringify (JObj ps) = Some (CHR ''{'' # join_comma (stringify_members ps) @ ''}'')"
| "stringify (JNative f) = None"
| "stringify_elements [] = []"
| "stringify_elements (v # vs) =
     (case stringify v of None \<Rightarrow> ''null'' | Some t \<Rightarrow> t) # stringify_elements vs"
| "stringify_members [] = []"
| "stringify_members ((k, v) # ps) =
     (case stringify v of
        None \<Rightarrow> stringify_members ps
      | Some t \<Rightarrow> (json_quote k @ CHR '':'' # t) # stringify_members ps)"

subsection \<open>JSON.parse\<close>

text \<open>
  The parser either rejects the text (\<open>Malformed\<close>, a \<open>SyntaxError\<close> of
  \<open>JSON.parse\<close>) or meets a text outside the model (\<open>Unsupported\<close>).
\<close>

datatype parse_error = Malformed string | Unsupported string

definition is_json_space :: "char \<Rightarrow> bool" where
  "is_json_space c = ((of_char c :: nat) \<in> {9, 10, 13, 32})"

definition skip_ws :: "string \<Rightarrow> string" where
  "skip_ws s = dropWhile is_json_space s"

definition hex4 :: "string \<Rightarrow> nat option" where
  "hex4 s =
     (case map hex_value s of
        [Some a, Some b, Some c, Some d] \<Rightarrow> Some (((a * 16 + b) * 16 + c) * 16 + d)
      | _ \<Rightarrow> None)"

definition unescape :: "char \<Rightarrow> char option" where
  "unescape e =
     (if e = dquote \<or> e = backslash \<or> e = CHR ''/'' then Some e
      else if e = CHR ''b'' then Some (CHR 0x08)
      else if e = CHR ''f'' then Some (CHR 0x0C)
      else if e = CHR ''n'' then Some (CHR 0x0A)
      else if e = CHR ''r'' then Some (CHR 0x0D)
      else if e = CHR ''t'' then Some (CHR 0x09)
      else None)"

text \<open>
  The characters of a string literal after its opening quote, up to the closing quote.
  An escape \<open>\uXXXX\<close> of a code unit above 255 is outside the model.
\<close>

fun parse_chars :: "string \<Rightarrow> string \<Rightarrow> parse_error + (string \<times> string)" where
  "parse_chars acc [] = Inl (Malformed ''unterminated string'')"
| "parse_chars acc [c] =
     (if c = dquote then Inr (rev acc, []) else Inl (Malformed ''unterminated string''))"
| "parse_chars acc (c # e # cs) =
     (if c = dquote then Inr (rev acc, e # cs)
      else if c = backslash then
        (if e = CHR ''u'' then
           (case hex4 (take 4 cs) of
              None \<Rightarrow> Inl (Malformed ''bad unicode escape'')
            | Some n \<Rightarrow>
                if n < 256 then parse_chars (char_of n # acc) (drop 4 cs)
                else Inl (Unsupported ''code unit above 255''))
         else (case unescape e of
                 None \<Rightarrow> Inl (Malformed ''bad escape'')
               | Some x \<Rightarrow> parse_chars (x # acc) cs))
      else if (of_char c :: nat) < 32 then Inl (Malformed ''control character in string'')
      else parse_chars (c # acc) (e # cs))"

text \<open>
  A number: an optional minus sign and a decimal integer without leading zeros.  A
  fraction or an exponent, and an integer beyond \<open>2^53\<close>, are outside the model.
\<close>

definition parse_number :: "string \<Rightarrow> parse_error + (jsval \<times> string)" where
  "parse_number s =
     (let neg = (s \<noteq> [] \<and> hd s = CHR ''-'');
          t = (if neg then tl s else s);
          ds = (if t \<noteq> [] \<and> hd t = CHR ''0'' then ''0'' else takeWhile is_digit t);
          r = drop (length ds) t
      in if ds = [] then Inl (Malformed ''digit expected'')
         else if r \<noteq> [] \<and> hd r \<in> set ''.eE'' then Inl (Unsupported ''non-integral number'')
         else if 2 ^ 53 < digits_value ds then Inl (Unsupported ''integer beyond 2^53'')
         else Inr (JNum (if neg then - int (digits_value ds) else int (digits_value ds)), r))"

text \<open>
  The recursive descent, with fuel: every call takes one unit, and running out of fuel
  is \<open>Unsupported\<close>, never a syntax error.  \<open>JSON_parse\<close> starts with more fuel
  than a text can use (\<open>JSON_parse_fuel\<close> below).
\<close>

fun parse_value :: "nat \<Rightarrow> string \<Rightarrow> parse_error + (jsval \<times> string)"
  and parse_elements :: "nat \<Rightarrow> jsval list \<Rightarrow> string \<Rightarrow> parse_error + (jsval \<times> string)"
  and parse_members :: "nat \<Rightarrow> (string \<times> jsval) list \<Rightarrow> string \<Rightarrow> parse_error + (jsval \<times> string)" where
  "parse_value 0 s = Inl (Unsupported ''fuel'')"
| "parse_value (Suc n) s =
     (case skip_ws s of
        [] \<Rightarrow> Inl (Malformed ''unexpected end of input'')
      | c # cs \<Rightarrow>
          if c = CHR ''{'' then
            (case skip_ws cs of
               [] \<Rightarrow> Inl (Malformed ''unexpected end of input'')
             | d # r \<Rightarrow> if d = CHR ''}'' then Inr (JObj [], r) else parse_members n [] (d # r))
          else if c = CHR ''['' then
            (case skip_ws cs of
               [] \<Rightarrow> Inl (Malformed ''unexpected end of input'')
             | d # r \<Rightarrow> if d = CHR '']'' then Inr (JArr [] [], r) else parse_elements n [] (d # r))
          else if c = dquote then
            (case parse_chars [] cs of
               Inl e \<Rightarrow> Inl e
             | Inr (t, r) \<Rightarrow> Inr (JStr t, r))
          else if c = CHR ''-'' \<or> is_digit c then parse_number (c # cs)
          else if take 4 (c # cs) = ''true'' then Inr (JBool True, drop 4 (c # cs))
          else if take 5 (c # cs) = ''false'' then Inr (JBool False, drop 5 (c # cs))
          else if take 4 (c # cs) = ''null'' then Inr (JNull, drop 4 (c # cs))
          else Inl (Malformed ''unexpected token''))"
| "parse_elements 0 acc s = Inl (Unsupported ''fuel'')"
| "parse_elements (Suc n) acc s =
     (case parse_value n s of
        Inl e \<Rightarrow> Inl e
      | Inr (v, r) \<Rightarrow>
          (case skip_ws r of
             [] \<Rightarrow> Inl (Malformed ''unexpected end of input'')
           | d # r' \<Rightarrow>
               if d = CHR '','' then parse_elements n (acc @ [v]) r'
               else if d = CHR '']'' then Inr (JArr (acc @ [v]) [], r')
               else Inl (Malformed ''unexpected token'')))"
| "parse_members 0 acc s = Inl (Unsupported ''fuel'')"
| "parse_members (Suc n) acc s =
     (case skip_ws s of
        [] \<Rightarrow> Inl (Malformed ''unexpected end of input'')
      | q # cs \<Rightarrow>
          if q \<noteq> dquote then Inl (Malformed ''unexpected token'')
          else
            (case parse_chars [] cs of
               Inl e \<Rightarrow> Inl e
             | Inr (k, r) \<Rightarrow>
                 (case skip_ws r of
                    [] \<Rightarrow> Inl (Malformed ''unexpected end of input'')
                  | d # r' \<Rightarrow>
                      if d \<noteq> CHR '':'' then Inl (Malformed ''unexpected token'')
                      else
                        (case parse_value n r' of
                           Inl e \<Rightarrow> Inl e
                         | Inr (v, r'') \<Rightarrow>
                             (case skip_ws r'' of
                                [] \<Rightarrow> Inl (Malformed ''unexpected end of input'')
                              | d' # r3 \<Rightarrow>
                                  if d' = CHR '','' then parse_members n (obj_put acc k v) r3
                                  else if d' = CHR ''}'' then Inr (JObj (obj_put acc k v), r3)
                                  else Inl (Malformed ''unexpected token''))))))"

text \<open>\<open>JSON_parse s\<close> is \<open>JSON.parse(s)\<close>.\<close>

definition JSON_parse :: "string \<Rightarrow> error + jsval" where
  "JSON_parse s =
     (case parse_value (Suc (2 * length s)) s of
        Inl (Malformed m) \<Rightarrow> Inl (SyntaxError m)
      | Inl (Unsupported m) \<Rightarrow> Inl (NotModelled m)
      | Inr (v, r) \<Rightarrow>
          if skip_ws r = [] then Inr v else Inl (SyntaxError ''unexpected token after value''))"

subsection \<open>The parser never runs out of fuel\<close>

text \<open>
  A successful parse consumes input, so the depth of the recursion is bounded by twice
  the length of the text.
\<close>

lemma length_skip_ws: "length (skip_ws s) \<le> length s"
  by (simp add: skip_ws_def length_dropWhile_le)

lemma skip_ws_Cons_length: "skip_ws s = c # r \<Longrightarrow> length r < length s"
  using length_skip_ws [of s] by simp

lemma parse_chars_shorter: "parse_chars acc s = Inr (t, r) \<Longrightarrow> length r < length s"
proof (induction acc s rule: parse_chars.induct)
  case (3 acc c e cs)
  then show ?case
    by (fastforce split: if_splits option.splits)
qed (auto split: if_splits)

lemma parse_number_shorter: "parse_number s = Inr (v, r) \<Longrightarrow> length r < length s"
proof -
  assume a: "parse_number s = Inr (v, r)"
  define t where "t = (if s \<noteq> [] \<and> hd s = CHR ''-'' then tl s else s)"
  define ds where "ds = (if t \<noteq> [] \<and> hd t = CHR ''0'' then ''0'' else takeWhile is_digit t)"
  from a have r: "r = drop (length ds) t" and ne: "ds \<noteq> []"
    by (auto simp: parse_number_def Let_def t_def ds_def split: if_splits)
  have "length ds \<le> length t"
    by (auto simp: ds_def length_takeWhile_le Suc_le_eq)
  with ne r have "length r < length t" by (cases ds) auto
  moreover have "length t \<le> length s" by (simp add: t_def)
  ultimately show ?thesis by simp
qed

lemma parse_shorter:
  "parse_value n s = Inr (v, r) \<Longrightarrow> length r < length s"
  "parse_elements n acc s = Inr (v, r) \<Longrightarrow> length r < length s"
  "parse_members n ms s = Inr (v, r) \<Longrightarrow> length r < length s"
proof (induction n s and n acc s and n ms s arbitrary: v r and v r and v r
    rule: parse_value_parse_elements_parse_members.induct)
  case (2 n s)
  show ?case
  proof (cases "skip_ws s")
    case Nil
    with 2 show ?thesis by simp
  next
    case (Cons c cs)
    note s = this
    have cs: "length cs < length s" using skip_ws_Cons_length [OF s] .
    consider (obj) "c = CHR ''{''" | (arr) "c \<noteq> CHR ''{''" "c = CHR ''[''"
      | (str) "c \<noteq> CHR ''{''" "c \<noteq> CHR ''[''" "c = dquote"
      | (num) "c \<noteq> CHR ''{''" "c \<noteq> CHR ''[''" "c \<noteq> dquote" "c = CHR ''-'' \<or> is_digit c"
      | (lit) "c \<noteq> CHR ''{''" "c \<noteq> CHR ''[''" "c \<noteq> dquote" "\<not> (c = CHR ''-'' \<or> is_digit c)"
      by blast
    then show ?thesis
    proof cases
      case obj
      show ?thesis
      proof (cases "skip_ws cs")
        case Nil
        with 2 s obj show ?thesis by simp
      next
        case (Cons d r')
        have "length (d # r') \<le> length cs" using length_skip_ws [of cs] Cons by simp
        with "2.IH"(1) [OF s obj Cons] "2.prems" s obj Cons cs show ?thesis
          by (auto split: if_splits)
      qed
    next
      case arr
      show ?thesis
      proof (cases "skip_ws cs")
        case Nil
        with 2 s arr show ?thesis by simp
      next
        case (Cons d r')
        have "length (d # r') \<le> length cs" using length_skip_ws [of cs] Cons by simp
        with "2.IH"(2) [OF s arr Cons] "2.prems" s arr Cons cs show ?thesis
          by (auto split: if_splits)
      qed
    next
      case str
      with "2.prems" s cs show ?thesis
        by (auto split: sum.splits dest: parse_chars_shorter)
    next
      case num
      have "length (c # cs) \<le> length s" using length_skip_ws [of s] s by simp
      with num "2.prems" s show ?thesis
        by (auto dest!: parse_number_shorter)
    next
      case lit
      have "length (c # cs) \<le> length s" using length_skip_ws [of s] s by simp
      with lit "2.prems" s show ?thesis
        by (auto split: if_splits)
    qed
  qed
next
  case (4 n acc s)
  from "4.prems" obtain v' r' where pv: "parse_value n s = Inr (v', r')"
    by (auto split: sum.splits)
  from "4.IH"(1) [OF pv] have l1: "length r' < length s" .
  show ?case
  proof (cases "skip_ws r'")
    case Nil
    with "4.prems" pv show ?thesis by simp
  next
    case (Cons d r'')
    have l2: "length r'' < length r'" using skip_ws_Cons_length [OF Cons] .
    show ?thesis
    proof (cases "d = CHR '',''")
      case True
      with "4.IH"(2) [OF pv refl Cons True] "4.prems" pv Cons l1 l2 show ?thesis
        by auto
    next
      case False
      with "4.prems" pv Cons l1 l2 show ?thesis
        by (auto split: if_splits)
    qed
  qed
next
  case (6 n ms s)
  from "6.prems" obtain q cs where s: "skip_ws s = q # cs" and q: "q = dquote"
    by (cases "skip_ws s") (auto split: if_splits)
  from "6.prems" s q obtain k r1 where pc: "parse_chars [] cs = Inr (k, r1)"
    by (auto split: sum.splits)
  from "6.prems" s q pc obtain d r2 where s2: "skip_ws r1 = d # r2" and d: "d = CHR '':''"
    by (cases "skip_ws r1") (auto split: if_splits)
  from "6.prems" s q pc s2 d obtain v' r3 where pv: "parse_value n r2 = Inr (v', r3)"
    by (auto split: sum.splits)
  from "6.prems" s q pc s2 d pv obtain d' r4 where s4: "skip_ws r3 = d' # r4"
    by (cases "skip_ws r3") auto
  have q': "\<not> q \<noteq> dquote" using q by simp
  have d'': "\<not> d \<noteq> CHR '':''" using d by simp
  have l: "length cs < length s" "length r1 < length cs" "length r2 < length r1"
    "length r4 < length r3"
    using skip_ws_Cons_length [OF s] parse_chars_shorter [OF pc] skip_ws_Cons_length [OF s2]
      skip_ws_Cons_length [OF s4] by simp_all
  have l3: "length r3 < length r2"
    using "6.IH"(1) [OF s q' pc refl s2 d'' pv] .
  show ?case
  proof (cases "d' = CHR '',''")
    case True
    with "6.IH"(2) [OF s q' pc refl s2 d'' pv refl s4 True] "6.prems" s q pc s2 d pv s4 l l3
    show ?thesis by auto
  next
    case False
    with "6.prems" s q pc s2 d pv s4 l l3 show ?thesis
      by (auto split: if_splits)
  qed
qed simp_all

lemma parse_chars_not_fuel: "parse_chars acc s \<noteq> Inl (Unsupported ''fuel'')"
  by (induction acc s rule: parse_chars.induct) (auto split: option.splits)

lemma parse_number_not_fuel: "parse_number s \<noteq> Inl (Unsupported ''fuel'')"
  by (simp add: parse_number_def Let_def)

lemma parse_fuel:
  "2 * length s < n \<Longrightarrow> parse_value n s \<noteq> Inl (Unsupported ''fuel'')"
  "2 * length s + 1 < n \<Longrightarrow> parse_elements n acc s \<noteq> Inl (Unsupported ''fuel'')"
  "2 * length s + 1 < n \<Longrightarrow> parse_members n ms s \<noteq> Inl (Unsupported ''fuel'')"
proof (induction n s and n acc s and n ms s
    rule: parse_value_parse_elements_parse_members.induct)
  case (2 n s)
  show ?case
  proof (cases "skip_ws s")
    case Nil
    then show ?thesis by simp
  next
    case (Cons c cs)
    note s = this
    have cs: "length cs < length s" using skip_ws_Cons_length [OF s] .
    consider (obj) "c = CHR ''{''" | (arr) "c \<noteq> CHR ''{''" "c = CHR ''[''"
      | (str) "c \<noteq> CHR ''{''" "c \<noteq> CHR ''[''" "c = dquote"
      | (num) "c \<noteq> CHR ''{''" "c \<noteq> CHR ''[''" "c \<noteq> dquote" "c = CHR ''-'' \<or> is_digit c"
      | (lit) "c \<noteq> CHR ''{''" "c \<noteq> CHR ''[''" "c \<noteq> dquote" "\<not> (c = CHR ''-'' \<or> is_digit c)"
      by blast
    then show ?thesis
    proof cases
      case obj
      show ?thesis
      proof (cases "skip_ws cs")
        case Nil
        with s obj show ?thesis by simp
      next
        case (Cons d r')
        have "length (d # r') \<le> length cs" using length_skip_ws [of cs] Cons by simp
        with cs "2.prems" have "2 * length (d # r') + 1 < n" by simp
        with "2.IH"(1) [OF s obj Cons] s obj Cons show ?thesis
          by auto
      qed
    next
      case arr
      show ?thesis
      proof (cases "skip_ws cs")
        case Nil
        with s arr show ?thesis by simp
      next
        case (Cons d r')
        have "length (d # r') \<le> length cs" using length_skip_ws [of cs] Cons by simp
        with cs "2.prems" have "2 * length (d # r') + 1 < n" by simp
        with "2.IH"(2) [OF s arr Cons] s arr Cons show ?thesis
          by auto
      qed
    next
      case str
      with s show ?thesis
        using parse_chars_not_fuel [of "[]" cs] by (auto split: sum.splits)
    next
      case num
      with s show ?thesis
        using parse_number_not_fuel [of "c # cs"] by auto
    next
      case lit
      with s show ?thesis by auto
    qed
  qed
next
  case (4 n acc s)
  from "4.prems" have f: "2 * length s < n" by simp
  show ?case
  proof (cases "parse_value n s")
    case (Inl e)
    with "4.IH"(1) [OF f] show ?thesis by simp
  next
    case (Inr p)
    then obtain v' r' where pv: "parse_value n s = Inr (v', r')" by (cases p) simp
    have l1: "length r' < length s" using parse_shorter(1) [OF pv] .
    show ?thesis
    proof (cases "skip_ws r'")
      case Nil
      with pv show ?thesis by simp
    next
      case (Cons d r'')
      have l2: "length r'' < length r'" using skip_ws_Cons_length [OF Cons] .
      from l1 l2 f have "2 * length r'' + 1 < n" by simp
      with "4.IH"(2) [OF pv refl Cons] pv Cons show ?thesis
        by auto
    qed
  qed
next
  case (6 n ms s)
  show ?case
  proof (cases "skip_ws s")
    case Nil
    then show ?thesis by simp
  next
    case (Cons q cs)
    note s = this
    show ?thesis
    proof (cases "q = dquote")
      case False
      with s show ?thesis by simp
    next
      case True
      then have q': "\<not> q \<noteq> dquote" by simp
      show ?thesis
      proof (cases "parse_chars [] cs")
        case (Inl e)
        with s True parse_chars_not_fuel [of "[]" cs] show ?thesis by simp
      next
        case (Inr p)
        then obtain k r1 where pc: "parse_chars [] cs = Inr (k, r1)" by (cases p) simp
        show ?thesis
        proof (cases "skip_ws r1")
          case Nil
          with s True pc show ?thesis by simp
        next
          case (Cons d r2)
          note s2 = this
          show ?thesis
          proof (cases "d = CHR '':''")
            case False
            with s True pc s2 show ?thesis by simp
          next
            case d: True
            then have d'': "\<not> d \<noteq> CHR '':''" by simp
            have l: "length cs < length s" "length r1 < length cs" "length r2 < length r1"
              using skip_ws_Cons_length [OF s] parse_chars_shorter [OF pc]
                skip_ws_Cons_length [OF s2] by simp_all
            with "6.prems" have f: "2 * length r2 < n" by simp
            show ?thesis
            proof (cases "parse_value n r2")
              case (Inl e)
              with "6.IH"(1) [OF s q' pc refl s2 d'' f] s True pc s2 d show ?thesis by simp
            next
              case (Inr p')
              then obtain v' r3 where pv: "parse_value n r2 = Inr (v', r3)" by (cases p') simp
              have l3: "length r3 < length r2" using parse_shorter(1) [OF pv] .
              show ?thesis
              proof (cases "skip_ws r3")
                case Nil
                with s True pc s2 d pv show ?thesis by simp
              next
                case (Cons d' r4)
                have "length r4 < length r3" using skip_ws_Cons_length [OF Cons] .
                with l l3 "6.prems" have "2 * length r4 + 1 < n" by simp
                with "6.IH"(2) [OF s q' pc refl s2 d'' pv refl Cons] s True pc s2 d pv Cons
                show ?thesis by auto
              qed
            qed
          qed
        qed
      qed
    qed
  qed
qed simp_all

lemma JSON_parse_fuel: "JSON_parse s \<noteq> Inl (NotModelled ''fuel'')"
  using parse_fuel(1) [of s "Suc (2 * length s)"]
  by (auto simp: JSON_parse_def split: sum.splits parse_error.splits prod.splits)

section \<open>The first draft: a keychain over a bare array\<close>

text \<open>
  \<open>constructor(password, salt, iv, data)\<close> stores its four arguments.  \<open>init\<close> draws the
  salt and the iv from \<open>getRandomBytes(16)\<close>: the two draws are arguments here, taken
  to be \<open>Buffer\<close>s, as the salt and the iv of a loaded store are.  An
  operation on the object returns the object after the call together with what the call
  returned or threw; a call that throws leaves the object as it was.
\<close>

record keychain1 =
  password1 :: string
  salt1 :: bytes
  iv1 :: bytes
  data1 :: jsval

definition init_v1 :: "string \<Rightarrow> bytes \<Rightarrow> bytes \<Rightarrow> keychain1" where
  "init_v1 password salt iv =
     \<lparr>password1 = password, salt1 = salt, iv1 = iv, data1 = JArr [] []\<rparr>"

text \<open>\<open>get(name)\<close>: \<open>return this.data[name] || null\<close>.\<close>

definition get_v1 :: "keychain1 \<Rightarrow> string \<Rightarrow> error + jsval" where
  "get_v1 k name =
     (case js_get (data1 k) name of
        Inl e \<Rightarrow> Inl e
      | Inr v \<Rightarrow> Inr (if truthy v then v else JNull))"

text \<open>\<open>set(name, value)\<close>: \<open>this.data[name] = value\<close>.\<close>

definition set_v1 :: "keychain1 \<Rightarrow> string \<Rightarrow> string \<Rightarrow> keychain1 \<times> (error + unit)" where
  "set_v1 k name val =
     (case js_put (data1 k) name val of
        Inl e \<Rightarrow> (k, Inl e)
      | Inr d \<Rightarrow> (k\<lparr>data1 := d\<rparr>, Inr ()))"

text \<open>\<open>remove(name)\<close>: \<open>if (this.data[name]) { delete this.data[name]; return true; } return false\<close>.\<close>

definition remove_v1 :: "keychain1 \<Rightarrow> string \<Rightarrow> keychain1 \<times> (error + bool)" where
  "remove_v1 k name =
     (case js_get (data1 k) name of
        Inl e \<Rightarrow> (k, Inl e)
      | Inr v \<Rightarrow>
          if truthy v then
            (case js_delete (data1 k) name of
               Inl e \<Rightarrow> (k, Inl e)
             | Inr d \<Rightarrow> (k\<lparr>data1 := d\<rparr>, Inr True))
          else (k, Inr False))"

text \<open>
  The cryptographic primitives of Node's \<open>crypto\<close> module are parameters: nothing is
  assumed about what they compute.  \<open>sha256\<close> is the digest of a byte sequence;
  \<open>pbkdf2_sha256 password salt iterations\<close> is the 32-byte key of PBKDF2 with
  HMAC-SHA-256; \<open>aes256gcm_encrypt key iv plaintext\<close> is what \<open>createCipheriv\<close>,
  \<open>update\<close> and \<open>final\<close> produce together (the ciphertext, or an error message);
  \<open>aes256cbc_decrypt key iv ciphertext\<close> is what \<open>update\<close> and \<open>final\<close> of a
  decipher produce, read as text (or an error message).
\<close>

record crypto =
  sha256 :: "bytes \<Rightarrow> 256 word"
  pbkdf2_sha256 :: "bytes \<Rightarrow> bytes \<Rightarrow> nat \<Rightarrow> 256 word"
  aes256gcm_encrypt :: "256 word \<Rightarrow> bytes \<Rightarrow> bytes \<Rightarrow> string + bytes"
  aes256cbc_decrypt :: "256 word \<Rightarrow> bytes \<Rightarrow> bytes \<Rightarrow> string + string"

definition PBKDF2_ITERATIONS :: nat where
  "PBKDF2_ITERATIONS = 100000"

definition MAX_PASSWORD_LENGTH :: nat where
  "MAX_PASSWORD_LENGTH = 64"

text \<open>
  \<open>a === b\<close>, where \<open>a\<close> is a primitive value or an object that was just created: an
  object is identical to itself only.
\<close>

fun strict_equal :: "jsval \<Rightarrow> jsval \<Rightarrow> bool" where
  "strict_equal (JArr es ps) b = False"
| "strict_equal (JObj ps) b = False"
| "strict_equal (JNative f) b = False"
| "strict_equal a b = (a = b)"

text \<open>
  \<open>Buffer.from(v, encoding)\<close> for the two encodings the program uses.  An array or an
  object as first argument is outside the model.
\<close>

definition buffer_from :: "(string \<Rightarrow> bytes) \<Rightarrow> jsval \<Rightarrow> error + bytes" where
  "buffer_from decode v =
     (case v of
        JStr s \<Rightarrow> Inr (decode s)
      | JArr es ps \<Rightarrow> Inl (NotModelled ''Buffer.from of an array'')
      | JObj ps \<Rightarrow> Inl (NotModelled ''Buffer.from of an object'')
      | JNative f \<Rightarrow> Inl (NotModelled ''Buffer.from of a built-in object'')
      | _ \<Rightarrow> Inl (TypeError ''the first argument must be a string, a Buffer or an array''))"

text \<open>
  \<open>computeChecksum(data)\<close>: the SHA-256 digest of the string, in base64.
\<close>

definition computeChecksum :: "crypto \<Rightarrow> string \<Rightarrow> string" where
  "computeChecksum c s = base64_encode (word_bytes (sha256 c (utf8 s)))"

text \<open>
  \<open>dump()\<close>: the JSON text of \<open>{ salt, iv, data: this.data, kvs: this.data }\<close>, with
  the salt and the iv in base64, and the checksum of that text.
\<close>

definition dump_v1 :: "crypto \<Rightarrow> keychain1 \<Rightarrow> error + (string \<times> string)" where
  "dump_v1 c k =
     (case stringify (JObj [(''salt'', JStr (base64_encode (salt1 k))),
                            (''iv'', JStr (base64_encode (iv1 k))),
                            (''data'', data1 k), (''kvs'', data1 k)]) of
        None \<Rightarrow> Inl (NotModelled ''JSON.stringify of an object literal'')
      | Some serializedData \<Rightarrow> Inr (serializedData, computeChecksum c serializedData))"

text \<open>
  \<open>load(password, repr, trustedDataCheck)\<close>: \<open>repr\<close> is parsed and destructured into
  \<open>serializedData\<close> and \<open>checksum\<close>; \<open>checksum === trustedDataCheck\<close> is required;
  \<open>serializedData\<close> is destructured into \<open>salt\<close>, \<open>iv\<close> and \<open>data\<close>.  An omitted
  \<open>trustedDataCheck\<close> is \<open>JUndefined\<close>.
\<close>

definition load_v1 :: "string \<Rightarrow> string \<Rightarrow> jsval \<Rightarrow> error + keychain1" where
  "load_v1 password repr trustedDataCheck =
     (case JSON_parse repr of
        Inl e \<Rightarrow> Inl e
      | Inr parsed \<Rightarrow>
     (case js_get parsed ''serializedData'' of
        Inl e \<Rightarrow> Inl e
      | Inr serializedData \<Rightarrow>
     (case js_get parsed ''checksum'' of
        Inl e \<Rightarrow> Inl e
      | Inr checksum \<Rightarrow>
          if \<not> strict_equal checksum trustedDataCheck
          then Inl (Error ''Data integrity check failed'')
          else
     (case js_get serializedData ''salt'' of
        Inl e \<Rightarrow> Inl e
      | Inr salt \<Rightarrow>
     (case js_get serializedData ''iv'' of
        Inl e \<Rightarrow> Inl e
      | Inr iv \<Rightarrow>
     (case js_get serializedData ''data'' of
        Inl e \<Rightarrow> Inl e
      | Inr d \<Rightarrow>
     (case buffer_from base64_decode salt of
        Inl e \<Rightarrow> Inl e
      | Inr saltb \<Rightarrow>
     (case buffer_from base64_decode iv of
        Inl e \<Rightarrow> Inl e
      | Inr ivb \<Rightarrow>
          Inr \<lparr>password1 = password, salt1 = saltb, iv1 = ivb, data1 = d\<rparr>))))))))"

section \<open>The third draft: a keychain with a derived key\<close>

text \<open>
  The helpers of \<open>./lib\<close> are not part of the sources: they are parameters, taken as
  total functions on strings and byte sequences.
\<close>

record lib =
  stringToBuffer :: "string \<Rightarrow> bytes"
  bufferToString :: "bytes \<Rightarrow> string"
  encodeBuffer :: "bytes \<Rightarrow> string"
  decodeBuffer :: "string \<Rightarrow> bytes"

text \<open>
  The salt and the iv of the third draft are \<open>Buffer\<close>s after \<open>init\<close>, and the values
  found in the JSON text after \<open>load\<close>.
\<close>

datatype field3 = Buffer bytes | Plain jsval

record keychain3 =
  data3 :: jsval
  secrets3 :: jsval
  salt3 :: field3
  iv3 :: field3
  key3 :: "256 word"

text \<open>
  \<open>constructor(password)\<close>: the two \<open>crypto.randomBytes(16)\<close> draws are arguments.
\<close>

definition constructor_v3 :: "crypto \<Rightarrow> jsval \<Rightarrow> bytes \<Rightarrow> bytes \<Rightarrow> error + keychain3" where
  "constructor_v3 c password rsalt riv =
     (case password of
        JStr p \<Rightarrow>
          Inr \<lparr>data3 = JObj [], secrets3 = JObj [], salt3 = Buffer rsalt, iv3 = Buffer riv,
               key3 = pbkdf2_sha256 c (utf8 p) rsalt PBKDF2_ITERATIONS\<rparr>
      | _ \<Rightarrow> Inl (TypeError ''Password must be a string''))"

definition init_v3 :: "crypto \<Rightarrow> string \<Rightarrow> bytes \<Rightarrow> bytes \<Rightarrow> error + keychain3" where
  "init_v3 c password rsalt riv =
     (if MAX_PASSWORD_LENGTH < length password
      then Inl (Error ''Password length exceeds the maximum allowed length'')
      else constructor_v3 c (JStr password) rsalt riv)"

text \<open>
  \<open>load(password, repr, trustedDataCheck)\<close>, in the order of the source.  Lines
  377-393: parse \<open>repr\<close> and destructure \<open>salt\<close>, \<open>iv\<close> and \<open>data\<close>; derive the key
  from the password and the salt as it stands in the text; decipher \<open>data\<close> with
  AES-256-CBC (an iv that is not 16 bytes long is refused when the decipher is created);
  parse the plaintext.  \<open>load_v3_decrypt\<close> returns the salt, the iv, the derived key
  and the parsed plaintext.
\<close>

definition load_v3_decrypt :: "crypto \<Rightarrow> string \<Rightarrow> string \<Rightarrow> error + (jsval \<times> jsval \<times> 256 word \<times> jsval)" where
  "load_v3_decrypt c password repr =
     (case JSON_parse repr of
        Inl e \<Rightarrow> Inl e
      | Inr parsed \<Rightarrow>
     (case js_get parsed ''salt'' of
        Inl e \<Rightarrow> Inl e
      | Inr salt \<Rightarrow>
     (case js_get parsed ''iv'' of
        Inl e \<Rightarrow> Inl e
      | Inr iv \<Rightarrow>
     (case js_get parsed ''data'' of
        Inl e \<Rightarrow> Inl e
      | Inr encryptedData \<Rightarrow>
     (case salt of
        JStr s \<Rightarrow>
          (let derivedKey = pbkdf2_sha256 c (utf8 password) (utf8 s) PBKDF2_ITERATIONS in
     (case buffer_from hex_decode iv of
        Inl e \<Rightarrow> Inl e
      | Inr ivb \<Rightarrow>
          if length ivb \<noteq> 16 then Inl (CipherError ''Invalid initialization vector'')
          else
     (case encryptedData of
        JStr ct \<Rightarrow>
     (case aes256cbc_decrypt c derivedKey ivb (hex_decode ct) of
        Inl m \<Rightarrow> Inl (CipherError m)
      | Inr decryptedData \<Rightarrow>
     (case JSON_parse decryptedData of
        Inl e \<Rightarrow> Inl e
      | Inr d \<Rightarrow> Inr (salt, iv, derivedKey, d)))
      | _ \<Rightarrow> Inl (TypeError ''the data argument must be a string or a buffer''))))
      | _ \<Rightarrow> Inl (TypeError ''the salt argument must be a string or a buffer''))))))"

text \<open>
  Lines 395-405: compare the hexadecimal SHA-256 digest of \<open>repr\<close> with
  \<open>trustedDataCheck\<close> when that is truthy; call the constructor on the parsed
  plaintext; overwrite key, salt and iv.  An omitted \<open>trustedDataCheck\<close> is
  \<open>JUndefined\<close>.
\<close>

definition load_v3 :: "crypto \<Rightarrow> bytes \<Rightarrow> bytes \<Rightarrow> string \<Rightarrow> string \<Rightarrow> jsval \<Rightarrow> error + keychain3" where
  "load_v3 c rsalt riv password repr trustedDataCheck =
     (case load_v3_decrypt c password repr of
        Inl e \<Rightarrow> Inl e
      | Inr (salt, iv, derivedKey, d) \<Rightarrow>
          (let checksum = hex_encode (word_bytes (sha256 c (utf8 repr))) in
           if truthy trustedDataCheck \<and> \<not> strict_equal (JStr checksum) trustedDataCheck
           then Inl (Error ''Data integrity check failed'')
           else
             (case constructor_v3 c d rsalt riv of
                Inl e \<Rightarrow> Inl e
              | Inr keychain \<Rightarrow>
                  Inr (keychain\<lparr>key3 := derivedKey, salt3 := Plain salt, iv3 := Plain iv\<rparr>))))"

text \<open>\<open>x.toString('hex')\<close> for a salt or an iv.\<close>

definition field_toString_hex :: "field3 \<Rightarrow> error + string" where
  "field_toString_hex f =
     (case f of
        Buffer b \<Rightarrow> Inr (hex_encode b)
      | Plain v \<Rightarrow>
          (case v of
             JStr s \<Rightarrow> Inr s
           | JBool b \<Rightarrow> Inr (if b then ''true'' else ''false'')
           | JNum n \<Rightarrow> Inl (RangeError ''toString() radix must be between 2 and 36'')
           | JUndefined \<Rightarrow> Inl (TypeError ''cannot read properties of undefined'')
           | JNull \<Rightarrow> Inl (TypeError ''cannot read properties of null'')
           | _ \<Rightarrow> Inl (NotModelled ''toString of an object'')))"

text \<open>The iv handed to \<open>createCipheriv\<close>.\<close>

definition cipher_iv :: "field3 \<Rightarrow> error + bytes" where
  "cipher_iv f =
     (case f of
        Buffer b \<Rightarrow> Inr b
      | Plain v \<Rightarrow>
          (case v of
             JStr s \<Rightarrow> Inr (utf8 s)
           | JNull \<Rightarrow> Inl (NotModelled ''a cipher without iv'')
           | _ \<Rightarrow> Inl (TypeError ''the iv argument must be a string or a buffer'')))"

text \<open>
  \<open>dump()\<close>: the JSON text of \<open>this.data\<close> is enciphered with AES-256-GCM under
  \<open>this.key\<close> and \<open>this.iv\<close>; the result is the JSON text of \<open>{ salt, iv, data }\<close>, all
  three in hexadecimal, and the hexadecimal SHA-256 digest of that text.
\<close>

definition dump_v3 :: "crypto \<Rightarrow> keychain3 \<Rightarrow> error + (string \<times> string)" where
  "dump_v3 c k =
     (case cipher_iv (iv3 k) of
        Inl e \<Rightarrow> Inl e
      | Inr ivb \<Rightarrow>
     (case stringify (data3 k) of
        None \<Rightarrow> Inl (TypeError ''the data argument must be a string or a buffer'')
      | Some plaintext \<Rightarrow>
     (case aes256gcm_encrypt c (key3 k) ivb (utf8 plaintext) of
        Inl m \<Rightarrow> Inl (CipherError m)
      | Inr ct \<Rightarrow>
     (case field_toString_hex (salt3 k) of
        Inl e \<Rightarrow> Inl e
      | Inr salt \<Rightarrow>
     (case field_toString_hex (iv3 k) of
        Inl e \<Rightarrow> Inl e
      | Inr iv \<Rightarrow>
     (case stringify (JObj [(''salt'', JStr salt), (''iv'', JStr iv),
                            (''data'', JStr (hex_encode ct))]) of
        None \<Rightarrow> Inl (NotModelled ''JSON.stringify of an object literal'')
      | Some serializedData \<Rightarrow>
          Inr (serializedData, hex_encode (word_bytes (sha256 c (utf8 serializedData))))))))))"

text \<open>
  \<open>get(name)\<close>: the value stored under the encoded name, decoded, or \<open>null\<close> when
  \<open>this.data[nameBase64]\<close> is \<open>undefined\<close>.  What the helpers do with a value that is
  not a string is outside the model.
\<close>

definition get_v3 :: "lib \<Rightarrow> keychain3 \<Rightarrow> string \<Rightarrow> error + jsval" where
  "get_v3 L k name =
     (let nameBase64 = encodeBuffer L (stringToBuffer L name) in
      case js_get (data3 k) nameBase64 of
        Inl e \<Rightarrow> Inl e
      | Inr valueBase64 \<Rightarrow>
          if valueBase64 \<noteq> JUndefined then
            (case valueBase64 of
               JStr s \<Rightarrow> Inr (JStr (bufferToString L (decodeBuffer L s)))
             | _ \<Rightarrow> Inl (NotModelled ''decodeBuffer of a value that is not a string''))
          else Inr JNull)"

definition set_v3 :: "lib \<Rightarrow> keychain3 \<Rightarrow> string \<Rightarrow> string \<Rightarrow> keychain3 \<times> (error + unit)" where
  "set_v3 L k name val =
     (let nameBase64 = encodeBuffer L (stringToBuffer L name);
          valueBase64 = encodeBuffer L (stringToBuffer L val) in
      case js_put (data3 k) nameBase64 valueBase64 of
        Inl e \<Rightarrow> (k, Inl e)
      | Inr d \<Rightarrow> (k\<lparr>data3 := d\<rparr>, Inr ()))"

definition remove_v3 :: "lib \<Rightarrow> keychain3 \<Rightarrow> string \<Rightarrow> keychain3 \<times> (error + bool)" where
  "remove_v3 L k name =
     (let nameBase64 = encodeBuffer L (stringToBuffer L name) in
      case js_get (data3 k) nameBase64 of
        Inl e \<Rightarrow> (k, Inl e)
      | Inr v \<Rightarrow>
          if v \<noteq> JUndefined then
            (case js_delete (data3 k) nameBase64 of
               Inl e \<Rightarrow> (k, Inl e)
             | Inr d \<Rightarrow> (k\<lparr>data3 := d\<rparr>, Inr True))
          else (k, Inr False))"

section \<open>Sequences of record operations\<close>

datatype op = Get string | Set string string | Remove string

text \<open>
  The store after a sequence of calls, each awaited, an exception of one call not
  stopping the next.
\<close>

fun run_v1 :: "keychain1 \<Rightarrow> op list \<Rightarrow> keychain1" where
  "run_v1 k [] = k"
| "run_v1 k (Get name # ops) = run_v1 k ops"
| "run_v1 k (Set name val # ops) = run_v1 (fst (set_v1 k name val)) ops"
| "run_v1 k (Remove name # ops) = run_v1 (fst (remove_v1 k name)) ops"

fun run_v3 :: "lib \<Rightarrow> keychain3 \<Rightarrow> op list \<Rightarrow> keychain3" where
  "run_v3 L k [] = k"
| "run_v3 L k (Get name # ops) = run_v3 L k ops"
| "run_v3 L k (Set name val # ops) = run_v3 L (fst (set_v3 L k name val)) ops"
| "run_v3 L k (Remove name # ops) = run_v3 L (fst (remove_v3 L k name)) ops"

section \<open>Own properties of an object\<close>

lemma map_of_alist_replace:
  "map_of ps k \<noteq> None \<Longrightarrow> map_of (alist_replace k v ps) k' = (if k' = k then Some v else map_of ps k')"
  by (induction ps) auto

lemma map_of_obj_insert_index:
  "map_of ps k = None \<Longrightarrow> map_of (obj_insert_index i k v ps) k' = (if k' = k then Some v else map_of ps k')"
  by (induction ps) (auto split: option.splits if_splits)

lemma map_of_obj_put:
  "map_of (obj_put ps k v) k' = (if k' = k then Some v else map_of ps k')"
proof (cases "map_of ps k")
  case None
  then show ?thesis
    by (cases "array_index k")
       (auto simp: obj_put_def map_of_obj_insert_index map_add_def split: option.splits)
next
  case (Some w)
  then show ?thesis
    by (simp add: obj_put_def map_of_alist_replace)
qed

lemma map_of_obj_delete:
  "map_of (obj_delete ps k) k' = (if k' = k then None else map_of ps k')"
  by (induction ps) (auto simp: obj_delete_def)

section \<open>Reading and removing entries of the first draft\<close>

lemma array_index_constructor: "array_index ''constructor'' = None"
  by (simp add: array_index_def is_digit_def)

lemma array_index_example_com: "array_index ''example.com'' = None"
  by (simp add: array_index_def is_digit_def)

text \<open>
  Claim C9: on a store fresh from \<open>init\<close>, \<open>get\<close> returns \<open>null\<close> for every name.
  The first draft keeps its entries as properties of an array, and \<open>get\<close> reads
  through the prototype chain: for the name \<open>constructor\<close> a fresh store returns the
  built-in \<open>Array\<close> function, not \<open>null\<close>.
\<close>

theorem C9_fresh_store_get_constructor:
  "get_v1 (init_v1 password salt iv) ''constructor'' = Inr (JNative ''Array'')"
  by (simp add: get_v1_def init_v1_def array_index_constructor inherited_def)

text \<open>
  Claim C6: \<open>set(domain, secret)\<close> followed by \<open>get(domain)\<close> returns the secret, the
  empty string included.  In the first draft \<open>set\<close> stores the empty string, and
  \<open>get\<close>, which returns \<open>this.data[name] || null\<close>, answers \<open>null\<close>.
\<close>

theorem C6_empty_secret_reads_null:
  "set_v1 (init_v1 password salt iv) ''example.com'' '''' =
     (\<lparr>password1 = password, salt1 = salt, iv1 = iv,
       data1 = JArr [] [(''example.com'', JStr '''')]\<rparr>, Inr ())
   \<and> get_v1 (fst (set_v1 (init_v1 password salt iv) ''example.com'' '''')) ''example.com''
       = Inr JNull"
  by (simp add: set_v1_def get_v1_def init_v1_def array_index_example_com obj_put_def)

text \<open>
  Claim C7: \<open>remove\<close> returns \<open>true\<close> exactly when an entry existed and was deleted.
  The first draft tests \<open>this.data[name]\<close> for truthiness: an entry whose secret is
  the empty string exists, and \<open>remove\<close> returns \<open>false\<close> and keeps it; on a fresh
  store \<open>remove("constructor")\<close> returns \<open>true\<close> although nothing was stored, and the
  following \<open>get\<close> still does not return \<open>null\<close>.
\<close>

theorem C7_remove_truthiness:
  "js_get (data1 (fst (set_v1 (init_v1 password salt iv) ''example.com'' ''''))) ''example.com''
     = Inr (JStr '''')
   \<and> remove_v1 (fst (set_v1 (init_v1 password salt iv) ''example.com'' '''')) ''example.com''
       = (fst (set_v1 (init_v1 password salt iv) ''example.com'' ''''), Inr False)
   \<and> remove_v1 (init_v1 password salt iv) ''constructor''
       = (init_v1 password salt iv, Inr True)
   \<and> get_v1 (fst (remove_v1 (init_v1 password salt iv) ''constructor'')) ''constructor''
       = Inr (JNative ''Array'')"
  by (simp add: remove_v1_def set_v1_def get_v1_def init_v1_def array_index_example_com
      array_index_constructor inherited_def obj_delete_def obj_put_def)

section \<open>The salt and the iv are not touched by the record operations\<close>

lemma salt1_set_v1: "salt1 (fst (set_v1 k name val)) = salt1 k"
  by (simp add: set_v1_def split: sum.splits)

lemma iv1_set_v1: "iv1 (fst (set_v1 k name val)) = iv1 k"
  by (simp add: set_v1_def split: sum.splits)

lemma salt1_remove_v1: "salt1 (fst (remove_v1 k name)) = salt1 k"
  by (simp add: remove_v1_def split: sum.splits)

lemma iv1_remove_v1: "iv1 (fst (remove_v1 k name)) = iv1 k"
  by (simp add: remove_v1_def split: sum.splits)

lemma salt1_iv1_run_v1: "salt1 (run_v1 k ops) = salt1 k \<and> iv1 (run_v1 k ops) = iv1 k"
  by (induction k ops rule: run_v1.induct)
     (simp_all add: salt1_set_v1 iv1_set_v1 salt1_remove_v1 iv1_remove_v1)

lemma salt3_set_v3: "salt3 (fst (set_v3 L k name val)) = salt3 k"
  by (simp add: set_v3_def Let_def split: sum.splits)

lemma iv3_set_v3: "iv3 (fst (set_v3 L k name val)) = iv3 k"
  by (simp add: set_v3_def Let_def split: sum.splits)

lemma key3_set_v3: "key3 (fst (set_v3 L k name val)) = key3 k"
  by (simp add: set_v3_def Let_def split: sum.splits)

lemma salt3_remove_v3: "salt3 (fst (remove_v3 L k name)) = salt3 k"
  by (simp add: remove_v3_def Let_def split: sum.splits)

lemma iv3_remove_v3: "iv3 (fst (remove_v3 L k name)) = iv3 k"
  by (simp add: remove_v3_def Let_def split: sum.splits)

lemma key3_remove_v3: "key3 (fst (remove_v3 L k name)) = key3 k"
  by (simp add: remove_v3_def Let_def split: sum.splits)

lemma frame_run_v3:
  "salt3 (run_v3 L k ops) = salt3 k \<and> iv3 (run_v3 L k ops) = iv3 k \<and> key3 (run_v3 L k ops) = key3 k"
  by (induction L k ops rule: run_v3.induct)
     (simp_all add: salt3_set_v3 iv3_set_v3 key3_set_v3 salt3_remove_v3 iv3_remove_v3 key3_remove_v3)

text \<open>
  Claim C10: \<open>set\<close> and \<open>remove\<close> leave the salt and the iv of the store as they
  were, whether they return or throw, and so does every sequence of \<open>get\<close>, \<open>set\<close>
  and \<open>remove\<close> calls; \<open>get\<close> only reads.  This holds in the first and in the third
  draft.
\<close>

theorem C10_salt_iv_unchanged:
  "salt1 (fst (set_v1 k1 name val)) = salt1 k1 \<and> iv1 (fst (set_v1 k1 name val)) = iv1 k1
   \<and> salt1 (fst (remove_v1 k1 name)) = salt1 k1 \<and> iv1 (fst (remove_v1 k1 name)) = iv1 k1
   \<and> salt1 (run_v1 k1 ops) = salt1 k1 \<and> iv1 (run_v1 k1 ops) = iv1 k1
   \<and> salt3 (fst (set_v3 L k3 name val)) = salt3 k3 \<and> iv3 (fst (set_v3 L k3 name val)) = iv3 k3
   \<and> salt3 (fst (remove_v3 L k3 name)) = salt3 k3 \<and> iv3 (fst (remove_v3 L k3 name)) = iv3 k3
   \<and> salt3 (run_v3 L k3 ops) = salt3 k3 \<and> iv3 (run_v3 L k3 ops) = iv3 k3"
  by (simp add: salt1_set_v1 iv1_set_v1 salt1_remove_v1 iv1_remove_v1 salt1_iv1_run_v1
      salt3_set_v3 iv3_set_v3 salt3_remove_v3 iv3_remove_v3 frame_run_v3)

section \<open>Dumping and loading in the first draft\<close>

definition example_salt :: bytes where
  "example_salt = [0, 1, 2, 3, 4, 5, 6, 7, 8, 9, 10, 11, 12, 13, 14, 15]"

definition example_iv :: bytes where
  "example_iv = [16, 17, 18, 19, 20, 21, 22, 23, 24, 25, 26, 27, 28, 29, 30, 31]"

text \<open>The store of the lifecycle scenario, before it is dumped.\<close>

definition scenario_store_v1 :: keychain1 where
  "scenario_store_v1 =
     fst (set_v1 (init_v1 ''Correct-Horse9!'' example_salt example_iv) ''example.com'' ''p@ssw0rd'')"

definition scenario_repr_v1 :: string where
  \<open>scenario_repr_v1 =
     ''{"salt":"AAECAwQFBgcICQoLDA0ODw==","iv":"EBESExQVFhcYGRobHB0eHw==","data":[],"kvs":[]}''\<close>

text \<open>\<open>dump()\<close> followed by \<open>load\<close> of what it returned, with or without the checksum.\<close>

definition dump_then_load_v1 :: "crypto \<Rightarrow> keychain1 \<Rightarrow> string \<Rightarrow> bool \<Rightarrow> error + keychain1" where
  "dump_then_load_v1 c k password with_checksum =
     (case dump_v1 c k of
        Inl e \<Rightarrow> Inl e
      | Inr (repr, checksum) \<Rightarrow>
          load_v1 password repr (if with_checksum then JStr checksum else JUndefined))"


definition load_then_get_v3 :: "crypto \<Rightarrow> lib \<Rightarrow> bytes \<Rightarrow> bytes \<Rightarrow> string \<Rightarrow> string \<Rightarrow> jsval \<Rightarrow> string \<Rightarrow> error + jsval" where
  "load_then_get_v3 c L rsalt riv password repr trustedDataCheck name =
     (case load_v3 c rsalt riv password repr trustedDataCheck of
        Inl e \<Rightarrow> Inl e
      | Inr k \<Rightarrow> get_v3 L k name)"

lemma base64_example_salt: "base64_encode example_salt = ''AAECAwQFBgcICQoLDA0ODw==''"
  by (simp add: example_salt_def base64_digits_def)

lemma base64_example_iv: "base64_encode example_iv = ''EBESExQVFhcYGRobHB0eHw==''"
  by (simp add: example_iv_def base64_digits_def)

lemma dump_v1_scenario:
  "dump_v1 c scenario_store_v1 = Inr (scenario_repr_v1, computeChecksum c scenario_repr_v1)"
  by (simp add: dump_v1_def scenario_store_v1_def set_v1_def init_v1_def array_index_example_com
      obj_put_def base64_example_salt base64_example_iv json_quote_def json_escape_def
      dquote_def backslash_def scenario_repr_v1_def)

lemma JSON_parse_scenario_repr_v1:
  "JSON_parse scenario_repr_v1 =
     Inr (JObj [(''salt'', JStr ''AAECAwQFBgcICQoLDA0ODw==''),
                (''iv'', JStr ''EBESExQVFhcYGRobHB0eHw==''),
                (''data'', JArr [] []), (''kvs'', JArr [] [])])"
  by code_simp

lemma load_v1_scenario_with_checksum:
  "load_v1 password scenario_repr_v1 (JStr t) = Inl (Error ''Data integrity check failed'')"
  by (simp add: load_v1_def JSON_parse_scenario_repr_v1 inherited_def Object_prototype_names_def)

lemma load_v1_scenario_without_checksum:
  "load_v1 password scenario_repr_v1 JUndefined
     = Inl (TypeError ''cannot read properties of undefined'')"
  by (simp add: load_v1_def JSON_parse_scenario_repr_v1 inherited_def Object_prototype_names_def)

section \<open>What the third draft's load returns\<close>

lemma constructor_v3_data: "constructor_v3 c p rs ri = Inr k \<Longrightarrow> data3 k = JObj []"
  by (auto simp: constructor_v3_def split: jsval.splits)

lemma load_v3_data: "load_v3 c rs ri password repr tc = Inr k \<Longrightarrow> data3 k = JObj []"
  by (auto simp: load_v3_def Let_def split: sum.splits prod.splits if_splits
      dest: constructor_v3_data)

lemma get_v3_empty: "data3 k = JObj [] \<Longrightarrow> get_v3 L k name \<noteq> Inr (JStr s)"
  by (auto simp: get_v3_def Let_def inherited_def split: jsval.splits)

lemma load_then_get_v3_no_secret:
  "load_then_get_v3 c L rs ri password repr tc name \<noteq> Inr (JStr s)"
  by (auto simp: load_then_get_v3_def split: sum.splits dest: load_v3_data get_v3_empty)

text \<open>
  Claim C1: the lifecycle scenario \<open>init\<close>, \<open>set("example.com", "p@ssw0rd")\<close>,
  \<open>dump\<close>, \<open>load\<close> with the dumped checksum, \<open>get("example.com")\<close>.  In the first
  draft \<open>load\<close> throws on what \<open>dump\<close> returned (it looks for a \<open>checksum\<close> member that
  \<open>dump\<close> never writes).  In the third draft \<open>load\<close> never hands the parsed data to
  the store it returns, so \<open>load\<close> followed by \<open>get\<close> returns the secret for no choice
  of the primitives.
\<close>

theorem C1_lifecycle_fails:
  "dump_then_load_v1 c scenario_store_v1 ''Correct-Horse9!'' True
     = Inl (Error ''Data integrity check failed'')
   \<and> load_then_get_v3 c L rs ri ''Correct-Horse9!'' repr tc ''example.com''
       \<noteq> Inr (JStr ''p@ssw0rd'')"
  by (simp add: dump_then_load_v1_def dump_v1_scenario load_v1_scenario_with_checksum
      load_then_get_v3_no_secret)

section \<open>A blob in the format the first draft's load reads\<close>

definition example_blob_v1 :: string where
  \<open>example_blob_v1 =
     ''{"serializedData":{"salt":"AAECAwQFBgcICQoLDA0ODw==","iv":"EBESExQVFhcYGRobHB0eHw==","data":{"example.com":"p@ssw0rd"}},"checksum":"x"}''\<close>

lemma JSON_parse_example_blob_v1:
  "JSON_parse example_blob_v1 =
     Inr (JObj [(''serializedData'',
                 JObj [(''salt'', JStr ''AAECAwQFBgcICQoLDA0ODw==''),
                       (''iv'', JStr ''EBESExQVFhcYGRobHB0eHw==''),
                       (''data'', JObj [(''example.com'', JStr ''p@ssw0rd'')])]),
                (''checksum'', JStr ''x'')])"
  by code_simp

lemma base64_decode_example_salt: "base64_decode ''AAECAwQFBgcICQoLDA0ODw=='' = example_salt"
  by code_simp

lemma base64_decode_example_iv: "base64_decode ''EBESExQVFhcYGRobHB0eHw=='' = example_iv"
  by code_simp

lemma load_v1_example_blob:
  "load_v1 password example_blob_v1 (JStr ''x'') =
     Inr \<lparr>password1 = password, salt1 = example_salt, iv1 = example_iv,
          data1 = JObj [(''example.com'', JStr ''p@ssw0rd'')]\<rparr>"
  by (simp add: load_v1_def JSON_parse_example_blob_v1 buffer_from_def
      base64_decode_example_salt base64_decode_example_iv)

lemma load_v1_example_blob_without_checksum:
  "load_v1 password example_blob_v1 JUndefined = Inl (Error ''Data integrity check failed'')"
  by (simp add: load_v1_def JSON_parse_example_blob_v1)

text \<open>
  Claim C8: \<open>load\<close> of a dumped \<open>repr\<close> with the checksum argument omitted succeeds, and
  no integrity error is raised without a checksum.  In the first draft \<open>load\<close> of what
  \<open>dump\<close> returned throws a \<open>TypeError\<close> (it destructures a \<open>serializedData\<close> member
  that \<open>dump\<close> never writes); and on a blob in the format it does read, omitting the
  checksum raises the integrity error, because the embedded checksum is compared with
  \<open>undefined\<close>.
\<close>

theorem C8_load_without_checksum_fails:
  "dump_then_load_v1 c scenario_store_v1 ''Correct-Horse9!'' False
     = Inl (TypeError ''cannot read properties of undefined'')
   \<and> load_v1 ''Correct-Horse9!'' example_blob_v1 JUndefined
       = Inl (Error ''Data integrity check failed'')"
  by (simp add: dump_then_load_v1_def dump_v1_scenario load_v1_scenario_without_checksum
      load_v1_example_blob_without_checksum)

section \<open>The password in the first draft\<close>




section \<open>Concrete parameters\<close>

text \<open>
  A concrete choice of the parameters, to instantiate the theorems below at concrete
  inputs.  The functions are placeholders, not the real primitives: the ``cipher''
  returns its plaintext, the ``decipher'' returns the JSON text of one fixed string (or,
  in \<open>failing_crypto\<close>, reports an error), the digest and the derived key are zero.
\<close>

definition stub_crypto :: crypto where
  \<open>stub_crypto =
     \<lparr>sha256 = (\<lambda>b. 0), pbkdf2_sha256 = (\<lambda>p s n. 0),
      aes256gcm_encrypt = (\<lambda>k iv p. Inr p),
      aes256cbc_decrypt = (\<lambda>k iv ct. Inr ''"secret"'')\<rparr>\<close>


definition example_lib :: lib where
  "example_lib =
     \<lparr>stringToBuffer = utf8, bufferToString = map (\<lambda>b. char_of (unat b)),
      encodeBuffer = base64_encode, decodeBuffer = base64_decode\<rparr>"

definition scenario_repr_v3 :: string where
  \<open>scenario_repr_v3 =
     ''{"salt":"000102030405060708090a0b0c0d0e0f","iv":"101112131415161718191a1b1c1d1e1f","data":"7b225a586868625842735a53356a6232303d223a226345427a63336377636d513d227d"}''\<close>

lemma JSON_parse_scenario_repr_v3:
  "JSON_parse scenario_repr_v3 =
     Inr (JObj [(''salt'', JStr ''000102030405060708090a0b0c0d0e0f''),
                (''iv'', JStr ''101112131415161718191a1b1c1d1e1f''),
                (''data'', JStr ''7b225a586868625842735a53356a6232303d223a226345427a63336377636d513d227d'')])"
  by code_simp

lemma hex_decode_example_iv: "hex_decode ''101112131415161718191a1b1c1d1e1f'' = example_iv"
  by code_simp

lemma JSON_parse_secret: \<open>JSON_parse ''"secret"'' = Inr (JStr ''secret'')\<close>
  by code_simp

section \<open>The checksum test of the third draft's load\<close>

lemma length_hex_encode: "length (hex_encode bs) = 2 * length bs"
  by (induction bs) (simp_all add: hex_encode_def)

lemma length_word_bytes: "length (word_bytes w) = 32"
  by (simp add: word_bytes_def)

lemma length_base64_encode: "length (base64_encode bs) = 4 * ((length bs + 2) div 3)"
proof (induction bs rule: base64_encode.induct)
  case (4 a b c r)
  have "(length (a # b # c # r) + 2) div 3 = Suc ((length r + 2) div 3)"
    by simp
  with 4 show ?case by simp
qed simp_all

lemma neq_by_length: "length s \<noteq> length t \<Longrightarrow> s \<noteq> t"
  by auto

lemma JStr_neq_by_length: "length s \<noteq> length t \<Longrightarrow> JStr s \<noteq> JStr t"
  by auto

lemma JSON_parse_not_Error: "JSON_parse s \<noteq> Inl (Error m)"
  by (simp add: JSON_parse_def split: sum.splits parse_error.splits prod.splits)

lemma js_get_not_Error: "js_get v name \<noteq> Inl (Error m)"
  by (cases v) simp_all

lemma buffer_from_not_Error: "buffer_from f v \<noteq> Inl (Error m)"
  by (simp add: buffer_from_def split: jsval.splits)

lemma constructor_v3_not_Error: "constructor_v3 c d rs ri \<noteq> Inl (Error m)"
  by (simp add: constructor_v3_def split: jsval.splits)

lemma load_v3_decrypt_not_Error: "load_v3_decrypt c password repr \<noteq> Inl (Error m)"
proof -
  have "load_v3_decrypt c password repr = Inl e \<Longrightarrow> e \<noteq> Error m" for e
    unfolding load_v3_decrypt_def Let_def
    using JSON_parse_not_Error js_get_not_Error buffer_from_not_Error
    by (auto split: sum.splits jsval.splits if_splits)
  then show ?thesis by blast
qed

lemma load_v3_integrity_iff:
  "load_v3 c rs ri password repr tc = Inl (Error ''Data integrity check failed'')
   \<longleftrightarrow> (\<exists>x. load_v3_decrypt c password repr = Inr x) \<and> truthy tc
       \<and> tc \<noteq> JStr (hex_encode (word_bytes (sha256 c (utf8 repr))))"
  using load_v3_decrypt_not_Error [of c password repr] constructor_v3_not_Error
  by (cases "load_v3_decrypt c password repr")
     (auto simp: load_v3_def Let_def split: sum.splits prod.splits)

text \<open>
  Claim C2, as the third draft has it.  \<open>load\<close> throws the integrity error exactly
  when parsing, key derivation and deciphering went through and a truthy
  \<open>trustedDataCheck\<close> differs from the hexadecimal SHA-256 digest of the bytes of
  \<open>repr\<close>; whenever a truthy \<open>trustedDataCheck\<close> differs from that digest, \<open>load\<close>
  returns no store; and an error of the earlier steps is what \<open>load\<close> throws.
\<close>

theorem C2_load_v3_checksum_mismatch:
  "(load_v3 c rs ri password repr tc = Inl (Error ''Data integrity check failed'')
      \<longleftrightarrow> (\<exists>x. load_v3_decrypt c password repr = Inr x) \<and> truthy tc
          \<and> tc \<noteq> JStr (hex_encode (word_bytes (sha256 c (utf8 repr)))))
   \<and> (truthy tc \<and> tc \<noteq> JStr (hex_encode (word_bytes (sha256 c (utf8 repr))))
        \<longrightarrow> (\<forall>k. load_v3 c rs ri password repr tc \<noteq> Inr k))
   \<and> (\<forall>e. load_v3_decrypt c password repr = Inl e
          \<longrightarrow> load_v3 c rs ri password repr tc = Inl e)"
proof -
  have a: "truthy tc \<and> tc \<noteq> JStr (hex_encode (word_bytes (sha256 c (utf8 repr))))
        \<longrightarrow> (\<forall>k. load_v3 c rs ri password repr tc \<noteq> Inr k)"
    by (cases "load_v3_decrypt c password repr")
       (auto simp: load_v3_def Let_def split: prod.splits)
  have b: "\<forall>e. load_v3_decrypt c password repr = Inl e
          \<longrightarrow> load_v3 c rs ri password repr tc = Inl e"
    by (simp add: load_v3_def)
  from a b load_v3_integrity_iff [of c rs ri password repr tc] show ?thesis
    by blast
qed

lemma load_v3_decrypt_scenario:
  "load_v3_decrypt stub_crypto ''Correct-Horse9!'' scenario_repr_v3
     = Inr (JStr ''000102030405060708090a0b0c0d0e0f'', JStr ''101112131415161718191a1b1c1d1e1f'',
            0, JStr ''secret'')"
  by (simp add: load_v3_decrypt_def JSON_parse_scenario_repr_v3 buffer_from_def
      hex_decode_example_iv example_iv_def stub_crypto_def JSON_parse_secret
      del: hex_decode.simps)

text \<open>
  An instance: with the placeholder primitives the scenario text goes through the
  deciphering step, and the checksum \<open>x\<close> is refused with the integrity error.
\<close>

theorem C2_witness:
  "load_v3_decrypt stub_crypto ''Correct-Horse9!'' scenario_repr_v3
     = Inr (JStr ''000102030405060708090a0b0c0d0e0f'', JStr ''101112131415161718191a1b1c1d1e1f'',
            0, JStr ''secret'')
   \<and> truthy (JStr ''x'')
   \<and> JStr ''x'' \<noteq> JStr (hex_encode (word_bytes (sha256 stub_crypto (utf8 scenario_repr_v3))))
   \<and> load_v3 stub_crypto example_salt example_iv ''Correct-Horse9!'' scenario_repr_v3 (JStr ''x'')
       = Inl (Error ''Data integrity check failed'')"
proof -
  have t: "truthy (JStr ''x'')" by simp
  have n: "JStr ''x'' \<noteq> JStr (hex_encode (word_bytes (sha256 stub_crypto (utf8 scenario_repr_v3))))"
    by (rule JStr_neq_by_length) (simp add: length_hex_encode length_word_bytes)
  from C2_load_v3_checksum_mismatch [of stub_crypto example_salt example_iv "''Correct-Horse9!''"
      scenario_repr_v3 "JStr ''x''"]
    load_v3_decrypt_scenario t n
  show ?thesis by blast
qed

text \<open>
  Claim C2 as stated fails.  The first draft's \<open>load\<close> computes no digest: it compares
  \<open>trustedDataCheck\<close> with the \<open>checksum\<close> member inside \<open>repr\<close>, and accepts the
  one-character checksum \<open>x\<close>, which is the SHA-256 digest of nothing.  The third
  draft's \<open>load\<close> skips the comparison for the empty string, which is falsy; and on the
  text \<open>{}\<close> it throws a \<open>TypeError\<close> before any digest is compared.
\<close>

theorem C2_counterexample:
  "load_v1 ''Correct-Horse9!'' example_blob_v1 (JStr ''x'')
     = Inr \<lparr>password1 = ''Correct-Horse9!'', salt1 = example_salt, iv1 = example_iv,
            data1 = JObj [(''example.com'', JStr ''p@ssw0rd'')]\<rparr>
   \<and> (\<forall>c. computeChecksum c example_blob_v1 \<noteq> ''x'')
   \<and> (\<forall>c rs ri password repr.
         JStr '''' \<noteq> JStr (hex_encode (word_bytes (sha256 c (utf8 repr))))
         \<and> load_v3 c rs ri password repr (JStr '''') \<noteq> Inl (Error ''Data integrity check failed''))
   \<and> (\<forall>c rs ri. load_v3 c rs ri ''Correct-Horse9!'' ''{}'' (JStr ''x'')
         = Inl (TypeError ''the salt argument must be a string or a buffer''))"
proof -
  have a: "\<forall>c. computeChecksum c example_blob_v1 \<noteq> ''x''"
  proof
    fix c
    show "computeChecksum c example_blob_v1 \<noteq> ''x''"
      by (rule neq_by_length)
         (simp add: computeChecksum_def length_base64_encode length_word_bytes)
  qed
  have b: "JStr '''' \<noteq> JStr (hex_encode (word_bytes (sha256 c (utf8 repr))))" for c repr
    by (rule JStr_neq_by_length) (simp add: length_hex_encode length_word_bytes)
  have c: "load_v3 c rs ri password repr (JStr '''') \<noteq> Inl (Error ''Data integrity check failed'')"
    for c rs ri password repr
    by (simp add: load_v3_integrity_iff)
  have p: "JSON_parse ''{}'' = Inr (JObj [])" by code_simp
  have d: "load_v3 c rs ri ''Correct-Horse9!'' ''{}'' (JStr ''x'')
      = Inl (TypeError ''the salt argument must be a string or a buffer'')" for c rs ri
    by (simp add: load_v3_def load_v3_decrypt_def p inherited_def Object_prototype_names_def)
  from load_v1_example_blob a b c d show ?thesis by blast
qed

section \<open>What the dumped text is made of\<close>

definition indexed_store_v1 :: keychain1 where
  "indexed_store_v1 =
     fst (set_v1 (init_v1 ''Correct-Horse9!'' example_salt example_iv) ''0'' ''hunter2'')"

definition indexed_repr_v1 :: string where
  \<open>indexed_repr_v1 =
     ''{"salt":"AAECAwQFBgcICQoLDA0ODw==","iv":"EBESExQVFhcYGRobHB0eHw==","data":["hunter2"],"kvs":["hunter2"]}''\<close>

lemma array_index_0: "array_index ''0'' = Some 0"
  by (simp add: array_index_def is_digit_def digits_value_def)

lemma dump_v1_indexed:
  "dump_v1 c indexed_store_v1 = Inr (indexed_repr_v1, computeChecksum c indexed_repr_v1)"
  by (simp add: dump_v1_def indexed_store_v1_def set_v1_def init_v1_def array_index_0
      base64_example_salt base64_example_iv json_quote_def json_escape_def
      dquote_def backslash_def indexed_repr_v1_def)

definition loaded_store_v1 :: keychain1 where
  "loaded_store_v1 =
     \<lparr>password1 = ''Correct-Horse9!'', salt1 = example_salt, iv1 = example_iv,
      data1 = JObj [(''example.com'', JStr ''p@ssw0rd'')]\<rparr>"

definition loaded_repr_v1 :: string where
  \<open>loaded_repr_v1 =
     ''{"salt":"AAECAwQFBgcICQoLDA0ODw==","iv":"EBESExQVFhcYGRobHB0eHw==","data":{"example.com":"p@ssw0rd"},"kvs":{"example.com":"p@ssw0rd"}}''\<close>

lemma dump_v1_loaded:
  "dump_v1 c loaded_store_v1 = Inr (loaded_repr_v1, computeChecksum c loaded_repr_v1)"
  by (simp add: dump_v1_def loaded_store_v1_def
      base64_example_salt base64_example_iv json_quote_def json_escape_def
      dquote_def backslash_def loaded_repr_v1_def)

text \<open>The characters of the text that the third draft dumps.\<close>

definition blob_alphabet :: "char set" where
  \<open>blob_alphabet = set ''{"salt":"","iv":"","data":""}'' \<union> set hex_digits\<close>

lemma set_hex_encode: "set (hex_encode bs) \<subseteq> set hex_digits"
proof -
  have "hex_digits ! (n mod 16) \<in> set hex_digits" for n
    by (rule nth_mem) (simp add: hex_digits_def)
  moreover have "hex_digits ! (unat b div 16) \<in> set hex_digits" for b :: "8 word"
  proof (rule nth_mem)
    have "unat b < 256" using unsigned_less [of b, where ?'a = nat] by simp
    then show "unat b div 16 < length hex_digits" by (simp add: hex_digits_def)
  qed
  ultimately show ?thesis by (auto simp: hex_encode_def)
qed

lemma json_escape_hex: "x \<in> set hex_digits \<Longrightarrow> json_escape x = [x]"
  by (auto simp: hex_digits_def json_escape_def dquote_def backslash_def)

lemma json_quote_hex: "set s \<subseteq> set hex_digits \<Longrightarrow> json_quote s = dquote # s @ [dquote]"
  by (induction s) (simp_all add: json_quote_def json_escape_hex)

lemma json_quote_hex_encode: "json_quote (hex_encode bs) = dquote # hex_encode bs @ [dquote]"
  by (rule json_quote_hex) (rule set_hex_encode)

lemma init_v3_Buffer:
  "init_v3 c password rs ri = Inr k \<Longrightarrow> salt3 k = Buffer rs \<and> iv3 k = Buffer ri"
  by (auto simp: init_v3_def constructor_v3_def split: if_splits)

text \<open>The third draft's store of the lifecycle scenario, and what it dumps.\<close>

definition scenario_store_v3 :: keychain3 where
  "scenario_store_v3 =
     \<lparr>data3 = JObj [], secrets3 = JObj [], salt3 = Buffer example_salt, iv3 = Buffer example_iv,
      key3 = 0\<rparr>"

lemma init_v3_scenario:
  "init_v3 stub_crypto ''Correct-Horse9!'' example_salt example_iv = Inr scenario_store_v3"
  by (simp add: init_v3_def constructor_v3_def MAX_PASSWORD_LENGTH_def stub_crypto_def
      scenario_store_v3_def)

lemma base64_example_com: "base64_encode (utf8 ''example.com'') = ''ZXhhbXBsZS5jb20=''"
  by (simp add: utf8_def base64_digits_def)

lemma base64_password: "base64_encode (utf8 ''p@ssw0rd'') = ''cEBzc3cwcmQ=''"
  by (simp add: utf8_def base64_digits_def)

lemma run_v3_scenario:
  "run_v3 example_lib scenario_store_v3 [Set ''example.com'' ''p@ssw0rd'']
     = scenario_store_v3\<lparr>data3 := JObj [(''ZXhhbXBsZS5jb20='', JStr ''cEBzc3cwcmQ='')]\<rparr>"
proof -
  have "array_index ''ZXhhbXBsZS5jb20='' = None"
    by (simp add: array_index_def is_digit_def)
  then show ?thesis
    by (simp add: set_v3_def example_lib_def base64_example_com base64_password
        scenario_store_v3_def obj_put_def)
qed

lemma hex_example_salt: "hex_encode example_salt = ''000102030405060708090a0b0c0d0e0f''"
  by (simp add: hex_encode_def example_salt_def hex_digits_def)

lemma hex_example_iv: "hex_encode example_iv = ''101112131415161718191a1b1c1d1e1f''"
  by (simp add: hex_encode_def example_iv_def hex_digits_def)

lemma hex_scenario_plaintext:
  \<open>hex_encode (utf8 ''{"ZXhhbXBsZS5jb20=":"cEBzc3cwcmQ="}'')
     = ''7b225a586868625842735a53356a6232303d223a226345427a63336377636d513d227d''\<close>
  by (simp add: hex_encode_def utf8_def hex_digits_def)

lemma dump_v3_scenario:
  "\<exists>checksum.
     dump_v3 stub_crypto (run_v3 example_lib scenario_store_v3 [Set ''example.com'' ''p@ssw0rd''])
       = Inr (scenario_repr_v3, checksum)"
  unfolding run_v3_scenario
  by (simp add: dump_v3_def scenario_store_v3_def cipher_iv_def field_toString_hex_def
      stub_crypto_def hex_example_salt hex_example_iv json_quote_def json_escape_def
      dquote_def backslash_def hex_scenario_plaintext scenario_repr_v3_def)

text \<open>
  The text that the third draft dumps for a salt, an iv and a ciphertext: the JSON text
  of \<open>{ salt, iv, data }\<close>, each in hexadecimal.
\<close>

definition blob_text :: "bytes \<Rightarrow> bytes \<Rightarrow> bytes \<Rightarrow> string" where
  \<open>blob_text salt iv ct =
     ''{"salt":"'' @ hex_encode salt @ ''","iv":"'' @ hex_encode iv @ ''","data":"''
       @ hex_encode ct @ ''"}''\<close>

lemma stringify_blob:
  "stringify (JObj [(''salt'', JStr (hex_encode rs)), (''iv'', JStr (hex_encode ri)),
                    (''data'', JStr (hex_encode ct))]) = Some (blob_text rs ri ct)"
proof -
  have q: "json_quote ''salt'' = dquote # ''salt'' @ [dquote]"
    "json_quote ''iv'' = dquote # ''iv'' @ [dquote]"
    "json_quote ''data'' = dquote # ''data'' @ [dquote]"
    by (simp_all add: json_quote_def json_escape_def dquote_def backslash_def)
  show ?thesis
    by (simp add: q json_quote_hex_encode blob_text_def dquote_def)
qed

text \<open>
  \<open>dump\<close> on a store whose salt and iv are \<open>Buffer\<close>s: the JSON text of the entries is
  handed to the cipher, and the ciphertext is all of the dumped text that depends on the
  entries.
\<close>

lemma dump_v3_Buffer_eq:
  assumes "salt3 k = Buffer rs" and "iv3 k = Buffer ri"
  shows "dump_v3 c k =
     (case stringify (data3 k) of
        None \<Rightarrow> Inl (TypeError ''the data argument must be a string or a buffer'')
      | Some plaintext \<Rightarrow>
          (case aes256gcm_encrypt c (key3 k) ri (utf8 plaintext) of
             Inl m \<Rightarrow> Inl (CipherError m)
           | Inr ct \<Rightarrow>
               Inr (blob_text rs ri ct,
                    hex_encode (word_bytes (sha256 c (utf8 (blob_text rs ri ct)))))))"
  using assms
  by (simp add: dump_v3_def cipher_iv_def field_toString_hex_def stringify_blob
      del: stringify.simps split: option.splits sum.splits)

lemma set_blob_text: "set (blob_text rs ri ct) \<subseteq> blob_alphabet"
proof -
  have h: "set (hex_encode b) \<subseteq> blob_alphabet" for b
    using set_hex_encode [of b] by (auto simp: blob_alphabet_def)
  show ?thesis
    unfolding blob_text_def
    using h [of rs] h [of ri] h [of ct]
    by (auto simp: blob_alphabet_def)
qed

lemma sublist_salt_blob_text: "sublist ''salt'' (blob_text rs ri ct)"
proof -
  have "blob_text rs ri ct = [CHR ''{'', dquote] @ ''salt'' @
      (dquote # '':'' @ [dquote] @ hex_encode rs @ dquote # '','' @ dquote # ''iv'' @
       dquote # '':'' @ dquote # hex_encode ri @ dquote # '','' @ dquote # ''data'' @
       dquote # '':'' @ dquote # hex_encode ct @ [dquote, CHR ''}''])"
    by (simp add: blob_text_def dquote_def)
  then show ?thesis
    by (metis sublist_appendI)
qed

lemma init_v3_key:
  "init_v3 c password rs ri = Inr k \<Longrightarrow>
     key3 k = pbkdf2_sha256 c (utf8 password) rs PBKDF2_ITERATIONS"
  by (auto simp: init_v3_def constructor_v3_def split: if_splits)

text \<open>
  Claim C3, as the third draft has it: for a store made by \<open>init\<close> and any sequence of
  \<open>get\<close>, \<open>set\<close> and \<open>remove\<close>, the dumped text is
  \<open>{"salt":"...","iv":"...","data":"..."}\<close> with the salt, the iv and the ciphertext in
  hexadecimal, where the ciphertext is what AES-256-GCM returns, under the key derived
  from the password and the salt and under the iv, for the JSON text of the entries.
  The entries reach the text only through that ciphertext.  Every character of the text
  is a character of the frame or a lowercase hexadecimal digit, and a domain name or a
  secret that has any other character does not occur in the text.
\<close>

theorem C3_dump_v3_alphabet:
  assumes "init_v3 c password rs ri = Inr k0"
    and "dump_v3 c (run_v3 L k0 ops) = Inr (repr, checksum)"
  shows "(\<exists>plaintext ct.
            stringify (data3 (run_v3 L k0 ops)) = Some plaintext
          \<and> aes256gcm_encrypt c (pbkdf2_sha256 c (utf8 password) rs PBKDF2_ITERATIONS) ri
                (utf8 plaintext) = Inr ct
          \<and> repr = blob_text rs ri ct)
    \<and> set repr \<subseteq> blob_alphabet
    \<and> (\<forall>s. \<not> set s \<subseteq> blob_alphabet \<longrightarrow> \<not> sublist s repr)"
proof -
  from init_v3_Buffer [OF assms(1)] have b: "salt3 (run_v3 L k0 ops) = Buffer rs"
    "iv3 (run_v3 L k0 ops) = Buffer ri"
    by (simp_all add: frame_run_v3)
  have k: "key3 (run_v3 L k0 ops) = pbkdf2_sha256 c (utf8 password) rs PBKDF2_ITERATIONS"
    using init_v3_key [OF assms(1)] by (simp add: frame_run_v3)
  from assms(2) obtain plaintext ct where
    p: "stringify (data3 (run_v3 L k0 ops)) = Some plaintext"
    and e: "aes256gcm_encrypt c (pbkdf2_sha256 c (utf8 password) rs PBKDF2_ITERATIONS) ri
              (utf8 plaintext) = Inr ct"
    and r: "repr = blob_text rs ri ct"
    unfolding dump_v3_Buffer_eq [OF b] k
    by (auto split: option.splits sum.splits)
  have s: "set repr \<subseteq> blob_alphabet"
    unfolding r by (rule set_blob_text)
  then have "\<not> sublist t repr" if "\<not> set t \<subseteq> blob_alphabet" for t
    using that set_mono_sublist [of t repr] by blast
  with p e r s show ?thesis by blast
qed

text \<open>
  A concrete cipher that is not the identity, to instantiate the theorem: it
  complements every byte of the plaintext.  It is a placeholder, not AES-256-GCM.
\<close>

definition masking_crypto :: crypto where
  "masking_crypto = stub_crypto\<lparr>aes256gcm_encrypt := (\<lambda>k iv p. Inr (map (\<lambda>b. 255 - b) p))\<rparr>"

definition masked_repr_v3 :: string where
  \<open>masked_repr_v3 =
     ''{"salt":"000102030405060708090a0b0c0d0e0f","iv":"101112131415161718191a1b1c1d1e1f","data":"84dda5a797979da7bd8ca5acca959dcdcfc2ddc5dd9cbabd859ccc9c889c92aec2dd82"}''\<close>

lemma init_v3_masking:
  "init_v3 masking_crypto ''Correct-Horse9!'' example_salt example_iv = Inr scenario_store_v3"
  by (simp add: init_v3_def constructor_v3_def MAX_PASSWORD_LENGTH_def masking_crypto_def
      stub_crypto_def scenario_store_v3_def)

lemma masked_scenario_ciphertext:
  \<open>hex_encode (map (\<lambda>b. 255 - b) (utf8 ''{"ZXhhbXBsZS5jb20=":"cEBzc3cwcmQ="}''))
     = ''84dda5a797979da7bd8ca5acca959dcdcfc2ddc5dd9cbabd859ccc9c889c92aec2dd82''\<close>
  by (simp add: hex_encode_def utf8_def hex_digits_def)

lemma stringify_scenario_data:
  \<open>stringify (JObj [(''ZXhhbXBsZS5jb20='', JStr ''cEBzc3cwcmQ='')])
     = Some ''{"ZXhhbXBsZS5jb20=":"cEBzc3cwcmQ="}''\<close>
  by (simp add: json_quote_def json_escape_def dquote_def backslash_def)

lemma dump_v3_masking:
  "dump_v3 masking_crypto (run_v3 example_lib scenario_store_v3 [Set ''example.com'' ''p@ssw0rd''])
     = Inr (masked_repr_v3, hex_encode (word_bytes (sha256 masking_crypto (utf8 masked_repr_v3))))"
proof -
  have t: \<open>blob_text example_salt example_iv
      (map (\<lambda>b. 255 - b) (utf8 ''{"ZXhhbXBsZS5jb20=":"cEBzc3cwcmQ="}'')) = masked_repr_v3\<close>
    using masked_scenario_ciphertext
    by (simp add: blob_text_def hex_example_salt hex_example_iv masked_repr_v3_def)
  let ?k = "scenario_store_v3\<lparr>data3 := JObj [(''ZXhhbXBsZS5jb20='', JStr ''cEBzc3cwcmQ='')]\<rparr>"
  have b: "salt3 ?k = Buffer example_salt" "iv3 ?k = Buffer example_iv"
    by (simp_all add: scenario_store_v3_def)
  have "dump_v3 masking_crypto ?k
      = Inr (masked_repr_v3, hex_encode (word_bytes (sha256 masking_crypto (utf8 masked_repr_v3))))"
    unfolding dump_v3_Buffer_eq [OF b]
    using t
    by (simp add: stringify_scenario_data masking_crypto_def stub_crypto_def
        scenario_store_v3_def del: stringify.simps)
  then show ?thesis
    by (simp only: run_v3_scenario)
qed

text \<open>
  An instance: the scenario store of the third draft, dumped with the byte-complementing
  cipher.  The \<open>data\<close> member of the text is the hexadecimal form of the cipher's
  output, not of the entries; neither \<open>example.com\<close> nor \<open>p@ssw0rd\<close> occurs in the
  text.
\<close>

theorem C3_witness:
  "init_v3 masking_crypto ''Correct-Horse9!'' example_salt example_iv = Inr scenario_store_v3
   \<and> dump_v3 masking_crypto
         (run_v3 example_lib scenario_store_v3 [Set ''example.com'' ''p@ssw0rd''])
       = Inr (masked_repr_v3, hex_encode (word_bytes (sha256 masking_crypto (utf8 masked_repr_v3))))
   \<and> (\<exists>plaintext ct.
          stringify (data3 (run_v3 example_lib scenario_store_v3
                              [Set ''example.com'' ''p@ssw0rd''])) = Some plaintext
        \<and> aes256gcm_encrypt masking_crypto
              (pbkdf2_sha256 masking_crypto (utf8 ''Correct-Horse9!'') example_salt
                 PBKDF2_ITERATIONS)
              example_iv (utf8 plaintext) = Inr ct
        \<and> masked_repr_v3 = blob_text example_salt example_iv ct)
   \<and> set masked_repr_v3 \<subseteq> blob_alphabet
   \<and> \<not> sublist ''example.com'' masked_repr_v3
   \<and> \<not> sublist ''p@ssw0rd'' masked_repr_v3"
proof -
  have x: "\<not> set ''example.com'' \<subseteq> blob_alphabet"
    by (simp add: blob_alphabet_def hex_digits_def)
  have p: "\<not> set ''p@ssw0rd'' \<subseteq> blob_alphabet"
    by (simp add: blob_alphabet_def hex_digits_def)
  from C3_dump_v3_alphabet [OF init_v3_masking dump_v3_masking] x p init_v3_masking
    dump_v3_masking
  show ?thesis by blast
qed

definition salt_repr_v3 :: string where
  \<open>salt_repr_v3 =
     ''{"salt":"000102030405060708090a0b0c0d0e0f","iv":"101112131415161718191a1b1c1d1e1f","data":"84dd9ccdb98c9bbec2c2ddc5dd9abec2c2dd82"}''\<close>

lemma base64_salt: "base64_encode (utf8 ''salt'') = ''c2FsdA==''"
  by (simp add: utf8_def base64_digits_def)

lemma base64_x: "base64_encode (utf8 ''x'') = ''eA==''"
  by (simp add: utf8_def base64_digits_def)

lemma run_v3_salt:
  "run_v3 example_lib scenario_store_v3 [Set ''salt'' ''x'']
     = scenario_store_v3\<lparr>data3 := JObj [(''c2FsdA=='', JStr ''eA=='')]\<rparr>"
proof -
  have "array_index ''c2FsdA=='' = None"
    by (simp add: array_index_def is_digit_def)
  then show ?thesis
    by (simp add: set_v3_def example_lib_def base64_salt base64_x
        scenario_store_v3_def obj_put_def)
qed

lemma dump_v3_salt:
  "dump_v3 masking_crypto (run_v3 example_lib scenario_store_v3 [Set ''salt'' ''x''])
     = Inr (salt_repr_v3, hex_encode (word_bytes (sha256 masking_crypto (utf8 salt_repr_v3))))"
proof -
  have c: \<open>hex_encode (map (\<lambda>b. 255 - b) (utf8 ''{"c2FsdA==":"eA=="}''))
      = ''84dd9ccdb98c9bbec2c2ddc5dd9abec2c2dd82''\<close>
    by (simp add: hex_encode_def utf8_def hex_digits_def)
  have t: \<open>blob_text example_salt example_iv
      (map (\<lambda>b. 255 - b) (utf8 ''{"c2FsdA==":"eA=="}'')) = salt_repr_v3\<close>
    using c by (simp add: blob_text_def hex_example_salt hex_example_iv salt_repr_v3_def)
  have s: \<open>stringify (JObj [(''c2FsdA=='', JStr ''eA=='')]) = Some ''{"c2FsdA==":"eA=="}''\<close>
    by (simp add: json_quote_def json_escape_def dquote_def backslash_def)
  let ?k = "scenario_store_v3\<lparr>data3 := JObj [(''c2FsdA=='', JStr ''eA=='')]\<rparr>"
  have b: "salt3 ?k = Buffer example_salt" "iv3 ?k = Buffer example_iv"
    by (simp_all add: scenario_store_v3_def)
  have "dump_v3 masking_crypto ?k
      = Inr (salt_repr_v3, hex_encode (word_bytes (sha256 masking_crypto (utf8 salt_repr_v3))))"
    unfolding dump_v3_Buffer_eq [OF b]
    using t
    by (simp add: s masking_crypto_def stub_crypto_def scenario_store_v3_def
        del: stringify.simps)
  then show ?thesis
    by (simp only: run_v3_salt)
qed

lemma dump_v3_after_set_salt:
  "\<exists>k0. init_v3 c ''Correct-Horse9!'' rs ri = Inr k0
     \<and> ((\<exists>m. dump_v3 c (run_v3 L k0 [Set ''salt'' ''x'']) = Inl (CipherError m))
        \<or> (\<exists>repr checksum. dump_v3 c (run_v3 L k0 [Set ''salt'' ''x'']) = Inr (repr, checksum)
              \<and> sublist ''salt'' repr))"
proof -
  define k0 where "k0 = \<lparr>data3 = JObj [], secrets3 = JObj [], salt3 = Buffer rs, iv3 = Buffer ri,
      key3 = pbkdf2_sha256 c (utf8 ''Correct-Horse9!'') rs PBKDF2_ITERATIONS\<rparr>"
  have i: "init_v3 c ''Correct-Horse9!'' rs ri = Inr k0"
    by (simp add: init_v3_def constructor_v3_def MAX_PASSWORD_LENGTH_def k0_def)
  let ?k = "run_v3 L k0 [Set ''salt'' ''x'']"
  have b: "salt3 ?k = Buffer rs" "iv3 ?k = Buffer ri"
    by (simp_all add: salt3_set_v3 iv3_set_v3 k0_def)
  have "\<exists>ps. data3 ?k = JObj ps"
    by (simp add: set_v3_def Let_def k0_def)
  then obtain ps where d: "data3 ?k = JObj ps"
    by blast
  obtain plaintext where p: "stringify (data3 ?k) = Some plaintext"
    unfolding d by simp
  have "(\<exists>m. dump_v3 c ?k = Inl (CipherError m))
      \<or> (\<exists>repr checksum. dump_v3 c ?k = Inr (repr, checksum) \<and> sublist ''salt'' repr)"
    unfolding dump_v3_Buffer_eq [OF b] p
    by (cases "aes256gcm_encrypt c (key3 ?k) ri (utf8 plaintext)")
       (simp_all add: sublist_salt_blob_text)
  with i show ?thesis by blast
qed

text \<open>
  Claim C3 as stated fails, in both drafts.  The first draft does not encipher: \<open>dump\<close>
  writes the elements of \<open>data\<close> as they are, so after \<open>set("0", "hunter2")\<close> the
  secret stands in the dumped text; and a store that \<open>load\<close> returned dumps the domain
  name and the secret in clear.  In the third draft the frame of the dumped text is in
  clear: after \<open>init\<close> and \<open>set("salt", "x")\<close>, for any primitives, \<open>dump\<close> either
  fails with the cipher's error or returns a text in which the domain name \<open>salt\<close>
  occurs; with the byte-complementing cipher it returns such a text.
\<close>

theorem C3_counterexample:
  "(\<forall>c. dump_v1 c indexed_store_v1 = Inr (indexed_repr_v1, computeChecksum c indexed_repr_v1))
   \<and> sublist ''hunter2'' indexed_repr_v1
   \<and> load_v1 ''Correct-Horse9!'' example_blob_v1 (JStr ''x'') = Inr loaded_store_v1
   \<and> (\<forall>c. dump_v1 c loaded_store_v1 = Inr (loaded_repr_v1, computeChecksum c loaded_repr_v1))
   \<and> sublist ''example.com'' loaded_repr_v1
   \<and> sublist ''p@ssw0rd'' loaded_repr_v1
   \<and> (\<forall>c L rs ri. \<exists>k0. init_v3 c ''Correct-Horse9!'' rs ri = Inr k0
         \<and> ((\<exists>m. dump_v3 c (run_v3 L k0 [Set ''salt'' ''x'']) = Inl (CipherError m))
            \<or> (\<exists>repr checksum.
                  dump_v3 c (run_v3 L k0 [Set ''salt'' ''x'']) = Inr (repr, checksum)
                  \<and> sublist ''salt'' repr)))
   \<and> init_v3 masking_crypto ''Correct-Horse9!'' example_salt example_iv = Inr scenario_store_v3
   \<and> dump_v3 masking_crypto (run_v3 example_lib scenario_store_v3 [Set ''salt'' ''x''])
       = Inr (salt_repr_v3, hex_encode (word_bytes (sha256 masking_crypto (utf8 salt_repr_v3))))
   \<and> sublist ''salt'' salt_repr_v3"
proof -
  have a: "sublist ''hunter2'' indexed_repr_v1"
    unfolding indexed_repr_v1_def by code_simp
  have b: "sublist ''example.com'' loaded_repr_v1"
    unfolding loaded_repr_v1_def by code_simp
  have c: "sublist ''p@ssw0rd'' loaded_repr_v1"
    unfolding loaded_repr_v1_def by code_simp
  have d: "load_v1 ''Correct-Horse9!'' example_blob_v1 (JStr ''x'') = Inr loaded_store_v1"
    by (simp add: load_v1_example_blob loaded_store_v1_def)
  have e: "sublist ''salt'' salt_repr_v3"
    unfolding salt_repr_v3_def by code_simp
  from a b c d e dump_v3_after_set_salt init_v3_masking dump_v3_salt show ?thesis
    by (simp add: dump_v1_indexed dump_v1_loaded)
qed

section \<open>Where the third draft deciphers\<close>













section \<open>The record operations of the third draft\<close>

text \<open>
  The third draft tests \<open>!== undefined\<close> where the first tests truthiness, and looks the
  encoded name up in a plain object.  For a store whose \<open>data\<close> is an object (every
  store that \<open>init\<close> or \<open>load\<close> returned, and every store reached from one by the
  record operations) and an encoded name that is not \<open>__proto__\<close>: \<open>set\<close> followed by
  \<open>get\<close> returns the value after the helpers' round trip, the empty string included;
  and \<open>remove\<close> returns \<open>true\<close> exactly when a lookup found something, after which
  the own property is gone.
\<close>

lemma set_then_get_v3:
  assumes "data3 k = JObj ps"
    and "encodeBuffer L (stringToBuffer L name) \<noteq> ''__proto__''"
  shows "get_v3 L (fst (set_v3 L k name val)) name
    = Inr (JStr (bufferToString L (decodeBuffer L (encodeBuffer L (stringToBuffer L val)))))"
  using assms by (simp add: get_v3_def set_v3_def Let_def map_of_obj_put)

lemma get_v3_fresh:
  assumes "init_v3 c password rs ri = Inr k"
    and "inherited ''Object'' Object_prototype_names (encodeBuffer L (stringToBuffer L name)) = JUndefined"
  shows "get_v3 L k name = Inr JNull"
  using assms
  by (auto simp: get_v3_def init_v3_def constructor_v3_def Let_def split: if_splits)

lemma remove_v3_absent:
  assumes "data3 k = JObj ps"
    and "js_get (data3 k) (encodeBuffer L (stringToBuffer L name)) = Inr JUndefined"
  shows "remove_v3 L k name = (k, Inr False)"
  using assms by (simp add: remove_v3_def Let_def)

lemma remove_v3_present:
  assumes "data3 k = JObj ps"
    and "map_of ps (encodeBuffer L (stringToBuffer L name)) = Some (JStr s)"
  shows "remove_v3 L k name
    = (k\<lparr>data3 := JObj (obj_delete ps (encodeBuffer L (stringToBuffer L name)))\<rparr>, Inr True)"
  using assms by (simp add: remove_v3_def Let_def)

lemma data3_run_v3_object:
  "data3 k = JObj ps \<Longrightarrow> \<exists>ps'. data3 (run_v3 L k ops) = JObj ps'"
proof (induction L k ops arbitrary: ps rule: run_v3.induct)
  case (3 L k name val ops)
  have "\<exists>ps'. data3 (fst (set_v3 L k name val)) = JObj ps'"
    using "3.prems" by (simp add: set_v3_def Let_def)
  then show ?case using "3.IH" by auto
next
  case (4 L k name ops)
  have "\<exists>ps'. data3 (fst (remove_v3 L k name)) = JObj ps'"
    using "4.prems" by (auto simp: remove_v3_def Let_def)
  then show ?case using "4.IH" by auto
qed simp_all

end
